theory Spec2Isabelle
  imports Main "HOL-Library.Word"
begin

section \<open>The key envelope of \<^verbatim>\<open>resources/js/Cipher.mjs\<close>\<close>

text \<open>
  \<^verbatim>\<open>Cipher.mjs\<close> is one class with a constructor and three asynchronous methods,
  \<^verbatim>\<open>export\<close>, \<^verbatim>\<open>generate\<close> and \<^verbatim>\<open>import\<close>. Everything else it touches lives
  outside the file: \<^verbatim>\<open>Password.mjs\<close> (\<^verbatim>\<open>recall\<close>, \<^verbatim>\<open>wrap\<close>, \<^verbatim>\<open>unwrap\<close>),
  \<^verbatim>\<open>Util/base16.mjs\<close> (\<^verbatim>\<open>encode\<close>, \<^verbatim>\<open>decode\<close>) and the host's \<^verbatim>\<open>crypto\<close> object.
  Those collaborators are a parameter of the model, the record \<open>collaborators\<close>;
  the three methods are translated line by line on top of it.

  Effects are explicit. A \<open>world\<close> holds the host's hidden state (entropy pool,
  remembered password), the JavaScript objects allocated by \<^verbatim>\<open>new this(...)\<close>, and the
  list of collaborator calls made so far, each with its arguments. A rejected promise
  or a thrown exception is \<open>Inl e\<close>; the class has no \<^verbatim>\<open>try\<close>/\<^verbatim>\<open>catch\<close>, so every
  \<open>Inl e\<close> that is awaited leaves the method as it is. Two operations that a method
  starts together and joins later pass through the host state in the order in which
  the method starts them; which of two rejections \<^verbatim>\<open>Promise.all\<close> reports is left to
  the scheduler.
\<close>

subsection \<open>Data\<close>

type_synonym byte = "8 word"
type_synonym bytes = "byte list"

text \<open>The key usages and the key format that occur in the file.\<close>

datatype KeyUsage = Encrypt | Decrypt | WrapKey | UnwrapKey

datatype KeyFormat = Spki

text \<open>
  The two algorithm dictionaries of the file:
  \<^verbatim>\<open>{ name, modulusLength, publicExponent, hash }\<close> for \<^verbatim>\<open>generateKey\<close> and
  \<^verbatim>\<open>{ name, hash }\<close> for \<^verbatim>\<open>importKey\<close>.
\<close>

datatype Algorithm =
    RsaHashedKeyGenParams string nat bytes string
  | RsaHashedImportParams string string

datatype 'k CryptoKeyPair =
  CryptoKeyPair (keyPair_privateKey: 'k) (keyPair_publicKey: 'k)

text \<open>The object built by the constructor (lines 9 to 15): three fields.\<close>

record 'k Cipher =
  privateKey :: 'k
  publicKey :: 'k
  salt :: bytes

text \<open>The object literal returned by \<^verbatim>\<open>export\<close> (lines 33 to 37).\<close>

record EnvelopeRecord =
  field_k :: string
  field_p :: string
  field_s :: string

subsection \<open>Collaborators\<close>

text \<open>
  \<open>'pw\<close> is a \<^verbatim>\<open>Password\<close> object, \<open>'k\<close> a \<^verbatim>\<open>CryptoKey\<close> handle, \<open>'e\<close> whatever a
  collaborator throws, \<open>'h\<close> the host's hidden state. An operation that draws
  randomness, recalls a password or creates a key handle reads and updates the host
  state; the hex codec and the SPKI encoding of a key are functions of their
  argument. \<^verbatim>\<open>wrap\<close>, \<^verbatim>\<open>unwrap\<close> and \<^verbatim>\<open>recall\<close> are taken to return promises
  (the file awaits each of them), so a failure of theirs is a rejection. The last three
  fields are never called by \<^verbatim>\<open>Cipher.mjs\<close>; they read a key handle's
  \<^verbatim>\<open>usages\<close> and \<^verbatim>\<open>extractable\<close> properties and decrypt with it, and are there
  to state what a key handle can do. \<open>settles_first\<close> is the scheduler's choice in
  \<^verbatim>\<open>Promise.all\<close>: whether the first promise of the pair settles before the second.
\<close>

record ('pw, 'k, 'e, 'h) collaborators =
  Password_recall :: "'h \<Rightarrow> ('e + 'pw) \<times> 'h"
  Password_wrap :: "'pw \<Rightarrow> 'k \<Rightarrow> bytes \<Rightarrow> 'h \<Rightarrow> ('e + bytes) \<times> 'h"
  Password_unwrap :: "'pw \<Rightarrow> bytes \<Rightarrow> bytes \<Rightarrow> 'h \<Rightarrow> ('e + 'k) \<times> 'h"
  base16_encode :: "bytes \<Rightarrow> string"
  base16_decode :: "string \<Rightarrow> 'e + bytes"
  crypto_getRandomValues :: "bytes \<Rightarrow> 'h \<Rightarrow> ('e + bytes) \<times> 'h"
  subtle_generateKey ::
    "Algorithm \<Rightarrow> bool \<Rightarrow> KeyUsage list \<Rightarrow> 'h \<Rightarrow> ('e + 'k CryptoKeyPair) \<times> 'h"
  subtle_exportKey :: "KeyFormat \<Rightarrow> 'k \<Rightarrow> 'e + bytes"
  subtle_importKey ::
    "KeyFormat \<Rightarrow> bytes \<Rightarrow> Algorithm \<Rightarrow> bool \<Rightarrow> KeyUsage list \<Rightarrow> 'h \<Rightarrow> ('e + 'k) \<times> 'h"
  settles_first :: "'h \<Rightarrow> bool"
  CryptoKey_usages :: "'k \<Rightarrow> KeyUsage list"
  CryptoKey_extractable :: "'k \<Rightarrow> bool"
  subtle_decrypt :: "'k \<Rightarrow> bytes \<Rightarrow> 'e + bytes"

subsection \<open>The world: host state, objects, calls\<close>

datatype ('pw, 'k) call =
    Recall
  | Wrap 'pw 'k bytes
  | Unwrap 'pw bytes bytes
  | Encode bytes
  | Decode string
  | GetRandomValues bytes
  | GenerateKey Algorithm bool "KeyUsage list"
  | ExportKey KeyFormat 'k
  | ImportKey KeyFormat bytes Algorithm bool "KeyUsage list"

record ('pw, 'k, 'h) world =
  host_state :: 'h
  objects :: "'k Cipher list"
  calls :: "('pw, 'k) call list"

text \<open>A call that goes through the host: it is logged, and the host state moves on.\<close>

definition invoke ::
  "('pw, 'k) call \<Rightarrow> ('h \<Rightarrow> 'r \<times> 'h) \<Rightarrow> ('pw, 'k, 'h) world \<Rightarrow> 'r \<times> ('pw, 'k, 'h) world" where
  "invoke c f w =
     (case f (host_state w) of
        (r, h) \<Rightarrow> (r, w\<lparr>host_state := h, calls := calls w @ [c]\<rparr>))"

text \<open>A call whose result is a function of its arguments: logged, no host state.\<close>

definition invoke_pure ::
  "('pw, 'k) call \<Rightarrow> 'r \<Rightarrow> ('pw, 'k, 'h) world \<Rightarrow> 'r \<times> ('pw, 'k, 'h) world" where
  "invoke_pure c r w = (r, w\<lparr>calls := calls w @ [c]\<rparr>)"

text \<open>\<^verbatim>\<open>new Uint8Array(n)\<close>: \<open>n\<close> zero bytes.\<close>

definition Uint8Array :: "nat \<Rightarrow> bytes" where
  "Uint8Array n = replicate n 0"

text \<open>
  \<^verbatim>\<open>Promise.all\<close> of two settled promises: both values, or the reason of the promise
  that rejected; when both rejected, of the one that did so first.
\<close>

definition Promise_all :: "bool \<Rightarrow> 'e + 'a \<Rightarrow> 'e + 'b \<Rightarrow> 'e + ('a \<times> 'b)" where
  "Promise_all first_wins x y =
     (case x of
        Inr a \<Rightarrow> (case y of Inr b \<Rightarrow> Inr (a, b) | Inl e2 \<Rightarrow> Inl e2)
      | Inl e1 \<Rightarrow> (case y of Inr b \<Rightarrow> Inl e1 | Inl e2 \<Rightarrow> Inl (if first_wins then e1 else e2)))"

subsection \<open>The class\<close>

text \<open>
  Lines 9 to 15. \<^verbatim>\<open>new this({...})\<close> allocates a fresh object and the constructor
  assigns its three fields; the reference returned is the object's index.
\<close>

definition Cipher_constructor ::
  "'k Cipher \<Rightarrow> ('pw, 'k, 'h) world \<Rightarrow> nat \<times> ('pw, 'k, 'h) world" where
  "Cipher_constructor init w =
     (length (objects w),
      w\<lparr>objects := objects w @
        [\<lparr>privateKey = privateKey init, publicKey = publicKey init, salt = salt init\<rparr>]\<rparr>)"

text \<open>
  Lines 24 and 74, \<^verbatim>\<open>password ??= await Password.recall()\<close>. The parameter defaults
  to \<^verbatim>\<open>null\<close>; \<open>None\<close> is a password that is omitted, \<^verbatim>\<open>undefined\<close> or \<^verbatim>\<open>null\<close>.
\<close>

definition password_or_recall ::
  "('pw, 'k, 'e, 'h) collaborators \<Rightarrow> 'pw option \<Rightarrow> ('pw, 'k, 'h) world
     \<Rightarrow> ('e + 'pw) \<times> ('pw, 'k, 'h) world" where
  "password_or_recall env password w =
     (case password of
        Some pw \<Rightarrow> (Inr pw, w)
      | None \<Rightarrow> invoke Recall (Password_recall env) w)"

text \<open>
  Lines 23 to 38. \<open>this\<close> is a reference to the envelope. \<^verbatim>\<open>wrap\<close> and
  \<^verbatim>\<open>exportKey\<close> are both called before either promise is awaited; the wrapped key
  is awaited and encoded first, then the exported key, then the salt is encoded.
\<close>

definition Cipher_export ::
  "('pw, 'k, 'e, 'h) collaborators \<Rightarrow> nat \<Rightarrow> 'pw option \<Rightarrow> ('pw, 'k, 'h) world
     \<Rightarrow> ('e + EnvelopeRecord) \<times> ('pw, 'k, 'h) world" where
  "Cipher_export env this password w0 =
     (case password_or_recall env password w0 of
        (Inl e, w1) \<Rightarrow> (Inl e, w1)
      | (Inr pw, w1) \<Rightarrow>
          (let obj = objects w1 ! this in
           case invoke (Wrap pw (privateKey obj) (salt obj))
                  (Password_wrap env pw (privateKey obj) (salt obj)) w1 of
             (wrappedPrivateKey, w2) \<Rightarrow>
          (case invoke_pure (ExportKey Spki (publicKey obj))
                  (subtle_exportKey env Spki (publicKey obj)) w2 of
             (exportedPublicKey, w3) \<Rightarrow>
          (case wrappedPrivateKey of
             Inl e \<Rightarrow> (Inl e, w3)
           | Inr wrapped \<Rightarrow>
          (case invoke_pure (Encode wrapped) (base16_encode env wrapped) w3 of
             (k, w4) \<Rightarrow>
          (case exportedPublicKey of
             Inl e \<Rightarrow> (Inl e, w4)
           | Inr exported \<Rightarrow>
          (case invoke_pure (Encode exported) (base16_encode env exported) w4 of
             (p, w5) \<Rightarrow>
          (case invoke_pure (Encode (salt obj)) (base16_encode env (salt obj)) w5 of
             (s, w6) \<Rightarrow>
               (Inr \<lparr>field_k = k, field_p = p, field_s = s\<rparr>, w6)))))))))"

text \<open>
  Lines 45 to 64. \<^verbatim>\<open>crypto.getRandomValues\<close> is synchronous: when it throws,
  \<^verbatim>\<open>generateKey\<close> is never called. Otherwise \<^verbatim>\<open>Promise.all\<close> waits for the one
  promise in the pair.
\<close>

definition Cipher_generate ::
  "('pw, 'k, 'e, 'h) collaborators \<Rightarrow> ('pw, 'k, 'h) world
     \<Rightarrow> ('e + nat) \<times> ('pw, 'k, 'h) world" where
  "Cipher_generate env w0 =
     (case invoke (GetRandomValues (Uint8Array 16))
             (crypto_getRandomValues env (Uint8Array 16)) w0 of
        (Inl e, w1) \<Rightarrow> (Inl e, w1)
      | (Inr salt', w1) \<Rightarrow>
          (case invoke
                  (GenerateKey (RsaHashedKeyGenParams ''RSA-OAEP'' 4096 [1, 0, 1] ''SHA-256'')
                     True [Encrypt, Decrypt, WrapKey, UnwrapKey])
                  (subtle_generateKey env
                     (RsaHashedKeyGenParams ''RSA-OAEP'' 4096 [1, 0, 1] ''SHA-256'')
                     True [Encrypt, Decrypt, WrapKey, UnwrapKey]) w1 of
             (Inl e, w2) \<Rightarrow> (Inl e, w2)
           | (Inr keyPair, w2) \<Rightarrow>
               (case Cipher_constructor
                       \<lparr>privateKey = keyPair_privateKey keyPair,
                        publicKey = keyPair_publicKey keyPair,
                        salt = salt'\<rparr> w2 of
                  (ref, w3) \<Rightarrow> (Inr ref, w3))))"

text \<open>
  Lines 73 to 100. The three fields are decoded in the order \<^verbatim>\<open>s\<close>, \<^verbatim>\<open>p\<close>, \<^verbatim>\<open>k\<close>;
  \<^verbatim>\<open>base16.decode\<close> is synchronous, so the first field it rejects ends the method.
  \<^verbatim>\<open>unwrap\<close> and \<^verbatim>\<open>importKey\<close> are both called, then joined by \<^verbatim>\<open>Promise.all\<close>.
\<close>

definition Cipher_import ::
  "('pw, 'k, 'e, 'h) collaborators \<Rightarrow> EnvelopeRecord \<Rightarrow> 'pw option \<Rightarrow> ('pw, 'k, 'h) world
     \<Rightarrow> ('e + nat) \<times> ('pw, 'k, 'h) world" where
  "Cipher_import env rec password w0 =
     (case password_or_recall env password w0 of
        (Inl e, w1) \<Rightarrow> (Inl e, w1)
      | (Inr pw, w1) \<Rightarrow>
          (case invoke_pure (Decode (field_s rec)) (base16_decode env (field_s rec)) w1 of
             (Inl e, w2) \<Rightarrow> (Inl e, w2)
           | (Inr salt', w2) \<Rightarrow>
          (case invoke_pure (Decode (field_p rec)) (base16_decode env (field_p rec)) w2 of
             (Inl e, w3) \<Rightarrow> (Inl e, w3)
           | (Inr exportedPublicKey, w3) \<Rightarrow>
          (case invoke_pure (Decode (field_k rec)) (base16_decode env (field_k rec)) w3 of
             (Inl e, w4) \<Rightarrow> (Inl e, w4)
           | (Inr wrappedPrivateKey, w4) \<Rightarrow>
          (case invoke (Unwrap pw wrappedPrivateKey salt')
                  (Password_unwrap env pw wrappedPrivateKey salt') w4 of
             (unwrapped, w5) \<Rightarrow>
          (case invoke
                  (ImportKey Spki exportedPublicKey
                     (RsaHashedImportParams ''RSA-OAEP'' ''SHA-256'') True [Encrypt, WrapKey])
                  (subtle_importKey env Spki exportedPublicKey
                     (RsaHashedImportParams ''RSA-OAEP'' ''SHA-256'') True [Encrypt, WrapKey]) w5 of
             (imported, w6) \<Rightarrow>
          (case Promise_all (settles_first env (host_state w6)) unwrapped imported of
             Inl e \<Rightarrow> (Inl e, w6)
           | Inr (unwrappedKey, importedKey) \<Rightarrow>
               (case Cipher_constructor
                       \<lparr>privateKey = unwrappedKey, publicKey = importedKey, salt = salt'\<rparr> w6 of
                  (ref, w7) \<Rightarrow> (Inr ref, w7)))))))))"

subsection \<open>Reading the log\<close>

text \<open>The calls that reach the host's cryptography or the password-based wrapping.\<close>

fun cryptographic :: "('pw, 'k) call \<Rightarrow> bool" where
  "cryptographic Recall = False"
| "cryptographic (Wrap pw key s) = True"
| "cryptographic (Unwrap pw wrapped s) = True"
| "cryptographic (Encode bs) = False"
| "cryptographic (Decode x) = False"
| "cryptographic (GetRandomValues arr) = True"
| "cryptographic (GenerateKey alg ext us) = True"
| "cryptographic (ExportKey fmt key) = True"
| "cryptographic (ImportKey fmt bs alg ext us) = True"

text \<open>The \<^verbatim>\<open>extractable\<close> argument of a call that creates key handles.\<close>

fun extractable_requested :: "('pw, 'k) call \<Rightarrow> bool option" where
  "extractable_requested (GenerateKey alg ext us) = Some ext"
| "extractable_requested (ImportKey fmt bs alg ext us) = Some ext"
| "extractable_requested c = None"

text \<open>The password object a wrapping call is made on.\<close>

fun password_used :: "('pw, 'k) call \<Rightarrow> 'pw option" where
  "password_used (Wrap pw key s) = Some pw"
| "password_used (Unwrap pw wrapped s) = Some pw"
| "password_used c = None"

text \<open>
  The host reads the \<^verbatim>\<open>publicExponent\<close> byte array as an unsigned big-endian
  integer.
\<close>

definition BigInteger_value :: "bytes \<Rightarrow> nat" where
  "BigInteger_value bs = foldl (\<lambda>n b. 256 * n + unat b) 0 bs"

subsection \<open>What the collaborators promise\<close>

text \<open>
  The interfaces the class relies on, each as a predicate on the collaborators.
  None of them is assumed globally; a theorem names the ones it needs.
\<close>

text \<open>Hex codec: \<^verbatim>\<open>decode\<close> undoes \<^verbatim>\<open>encode\<close>.\<close>

definition hex_inverse :: "('pw, 'k, 'e, 'h) collaborators \<Rightarrow> bool" where
  "hex_inverse env = (\<forall>bs. base16_decode env (base16_encode env bs) = Inr bs)"

text \<open>
  Password provider: what \<^verbatim>\<open>wrap\<close> produced, \<^verbatim>\<open>unwrap\<close> on the same password and
  salt turns back into a key that decrypts as the wrapped one did.
\<close>

definition wrap_unwrap_roundtrip :: "('pw, 'k, 'e, 'h) collaborators \<Rightarrow> bool" where
  "wrap_unwrap_roundtrip env =
     (\<forall>pw key s h wrapped h' h2.
        Password_wrap env pw key s h = (Inr wrapped, h') \<longrightarrow>
        (\<exists>key' h3. Password_unwrap env pw wrapped s h2 = (Inr key', h3) \<and>
           (\<forall>c. subtle_decrypt env key' c = subtle_decrypt env key c)))"

text \<open>Password provider: \<^verbatim>\<open>unwrap\<close> on another password rejects.\<close>

definition unwrap_rejects_wrong_password :: "('pw, 'k, 'e, 'h) collaborators \<Rightarrow> bool" where
  "unwrap_rejects_wrong_password env =
     (\<forall>pw pw' key s h wrapped h' h2.
        Password_wrap env pw key s h = (Inr wrapped, h') \<and> pw' \<noteq> pw \<longrightarrow>
        (\<exists>e h3. Password_unwrap env pw' wrapped s h2 = (Inl e, h3)))"

text \<open>
  Host: the SPKI bytes of a generated RSA-OAEP/SHA-256 public key import again as
  such a key, for any usages a public key may have, and an extractable import
  exports to the same bytes.
\<close>

definition spki_roundtrip :: "('pw, 'k, 'e, 'h) collaborators \<Rightarrow> bool" where
  "spki_roundtrip env =
     (\<forall>n e ext us h0 pair h1 bs ext' us' h2.
        subtle_generateKey env (RsaHashedKeyGenParams ''RSA-OAEP'' n e ''SHA-256'') ext us h0
          = (Inr pair, h1) \<and>
        subtle_exportKey env Spki (keyPair_publicKey pair) = Inr bs \<and>
        set us' \<subseteq> {Encrypt, WrapKey} \<longrightarrow>
        (\<exists>key' h3.
           subtle_importKey env Spki bs (RsaHashedImportParams ''RSA-OAEP'' ''SHA-256'') ext' us' h2
             = (Inr key', h3) \<and>
           (ext' \<longrightarrow> subtle_exportKey env Spki key' = Inr bs)))"

text \<open>Host: \<^verbatim>\<open>getRandomValues\<close> fills the array it is given and returns it.\<close>

definition getRandomValues_fills :: "('pw, 'k, 'e, 'h) collaborators \<Rightarrow> bool" where
  "getRandomValues_fills env =
     (\<forall>arr h filled h'.
        crypto_getRandomValues env arr h = (Inr filled, h') \<longrightarrow> length filled = length arr)"

text \<open>
  Host: an RSA-OAEP key pair gets the requested usages, split between the two keys
  (\<^verbatim>\<open>decrypt\<close>, \<^verbatim>\<open>unwrapKey\<close> to the private key, \<^verbatim>\<open>encrypt\<close>, \<^verbatim>\<open>wrapKey\<close> to the
  public key); the private key is extractable as requested, the public key always.
\<close>

definition generateKey_grants :: "('pw, 'k, 'e, 'h) collaborators \<Rightarrow> bool" where
  "generateKey_grants env =
     (\<forall>n e hash ext us h pair h'.
        subtle_generateKey env (RsaHashedKeyGenParams ''RSA-OAEP'' n e hash) ext us h
          = (Inr pair, h') \<longrightarrow>
        set (CryptoKey_usages env (keyPair_privateKey pair)) = set us \<inter> {Decrypt, UnwrapKey} \<and>
        set (CryptoKey_usages env (keyPair_publicKey pair)) = set us \<inter> {Encrypt, WrapKey} \<and>
        CryptoKey_extractable env (keyPair_privateKey pair) = ext \<and>
        CryptoKey_extractable env (keyPair_publicKey pair))"

text \<open>Host: an imported key gets the usages and the extractable flag requested.\<close>

definition importKey_grants :: "('pw, 'k, 'e, 'h) collaborators \<Rightarrow> bool" where
  "importKey_grants env =
     (\<forall>fmt bs alg ext us h key h'.
        subtle_importKey env fmt bs alg ext us h = (Inr key, h') \<longrightarrow>
        set (CryptoKey_usages env key) = set us \<and> CryptoKey_extractable env key = ext)"

subsection \<open>The hex codec, from the specification\<close>

text \<open>
  Modelled from the spec: \<^verbatim>\<open>Util/base16.mjs\<close> is not among the sources. The
  specification describes it as a "bidirectional mapping between raw byte sequences
  and lowercase hexadecimal strings" whose "decode fails on non-hex input or odd
  length". \<open>valid_hex\<close> is that condition; \<open>spec_encode\<close> and \<open>spec_decode\<close> are a
  codec of that description, used below as a concrete collaborator.
\<close>

text \<open>Modelled from the spec: the lowercase hexadecimal digit of a value below 16.\<close>

definition hex_digit :: "nat \<Rightarrow> char" where
  "hex_digit n = ''0123456789abcdef'' ! n"

text \<open>
  Modelled from the spec: the value of a hexadecimal digit, \<open>None\<close> for any other
  character ("non-hex input").
\<close>

definition hex_value :: "char \<Rightarrow> nat option" where
  "hex_value c =
     (let n = (of_char c :: nat) in
      if 48 \<le> n \<and> n \<le> 57 then Some (n - 48)
      else if 97 \<le> n \<and> n \<le> 102 then Some (n - 87)
      else if 65 \<le> n \<and> n \<le> 70 then Some (n - 55)
      else None)"

text \<open>
  Modelled from the spec: the strings on which \<^verbatim>\<open>decode\<close> does not fail, those of
  even length made of hexadecimal digits.
\<close>

definition valid_hex :: "string \<Rightarrow> bool" where
  "valid_hex x = (even (length x) \<and> list_all (\<lambda>c. hex_value c \<noteq> None) x)"

text \<open>Modelled from the spec: \<^verbatim>\<open>encode(bytes) -> string\<close>, two lowercase digits a byte.\<close>

fun spec_encode :: "bytes \<Rightarrow> string" where
  "spec_encode [] = []"
| "spec_encode (b # bs) =
     hex_digit (unat b div 16) # hex_digit (unat b mod 16) # spec_encode bs"

text \<open>
  Modelled from the spec: \<^verbatim>\<open>decode(string) -> bytes\<close>, failing (\<open>None\<close>) "on non-hex
  input or odd length".
\<close>

fun spec_decode :: "string \<Rightarrow> bytes option" where
  "spec_decode [] = Some []"
| "spec_decode [c] = None"
| "spec_decode (c # d # cs) =
     (case hex_value c of
        None \<Rightarrow> None
      | Some hi \<Rightarrow>
          (case hex_value d of
             None \<Rightarrow> None
           | Some lo \<Rightarrow>
               (case spec_decode cs of
                  None \<Rightarrow> None
                | Some bs \<Rightarrow> Some (of_nat (16 * hi + lo) # bs))))"

text \<open>Hex codec: \<^verbatim>\<open>decode\<close> throws on every string that is not valid hexadecimal.\<close>

definition decode_rejects_invalid :: "('pw, 'k, 'e, 'h) collaborators \<Rightarrow> bool" where
  "decode_rejects_invalid env = (\<forall>x. \<not> valid_hex x \<longrightarrow> isl (base16_decode env x))"

subsection \<open>A concrete set of collaborators\<close>

text \<open>
  A deterministic stand-in for the password provider and the host, small enough to
  run: a key is one byte of material with its usages and its extractable flag, the
  SPKI encoding of a public key is that byte, a wrapped private key is the byte
  followed by the salt and the password, and the host state is a remembered
  password and a counter that plays the entropy pool. The hex codec is the one
  above.
\<close>

datatype test_error =
  NoPassword | NotHex | WrongPassword | BadSpki | InvalidAccess | NotSupported

datatype test_key =
    TestPrivate byte "KeyUsage list" bool
  | TestPublic byte "KeyUsage list" bool

record test_host =
  remembered :: "string option"
  entropy :: nat

definition password_bytes :: "string \<Rightarrow> bytes" where
  "password_bytes pw = map (\<lambda>c. of_nat (of_char c)) pw"

definition test_recall :: "test_host \<Rightarrow> (test_error + string) \<times> test_host" where
  "test_recall h =
     (case remembered h of None \<Rightarrow> (Inl NoPassword, h) | Some pw \<Rightarrow> (Inr pw, h))"

definition test_wrap ::
  "string \<Rightarrow> test_key \<Rightarrow> bytes \<Rightarrow> test_host \<Rightarrow> (test_error + bytes) \<times> test_host" where
  "test_wrap pw key s h =
     (case key of
        TestPrivate m us ext \<Rightarrow>
          (if ext then Inr (m # s @ password_bytes pw) else Inl InvalidAccess, h)
      | TestPublic m us ext \<Rightarrow> (Inl InvalidAccess, h))"

definition test_unwrap ::
  "string \<Rightarrow> bytes \<Rightarrow> bytes \<Rightarrow> test_host \<Rightarrow> (test_error + test_key) \<times> test_host" where
  "test_unwrap pw wrapped s h =
     (case wrapped of
        [] \<Rightarrow> (Inl WrongPassword, h)
      | m # rest \<Rightarrow>
          (if rest = s @ password_bytes pw
           then Inr (TestPrivate m [Decrypt, UnwrapKey] True)
           else Inl WrongPassword, h))"

definition test_encode :: "bytes \<Rightarrow> string" where
  "test_encode bs = spec_encode bs"

definition test_decode :: "string \<Rightarrow> test_error + bytes" where
  "test_decode x = (case spec_decode x of None \<Rightarrow> Inl NotHex | Some bs \<Rightarrow> Inr bs)"

definition test_getRandomValues ::
  "bytes \<Rightarrow> test_host \<Rightarrow> (test_error + bytes) \<times> test_host" where
  "test_getRandomValues arr h =
     (Inr (map (\<lambda>i. of_nat (entropy h + i)) [0..<length arr]),
      h\<lparr>entropy := entropy h + length arr\<rparr>)"

definition test_generateKey ::
  "Algorithm \<Rightarrow> bool \<Rightarrow> KeyUsage list \<Rightarrow> test_host
     \<Rightarrow> (test_error + test_key CryptoKeyPair) \<times> test_host" where
  "test_generateKey alg ext us h =
     (case alg of
        RsaHashedKeyGenParams name n e hash \<Rightarrow>
          (if name = ''RSA-OAEP''
           then Inr (CryptoKeyPair
                  (TestPrivate (of_nat (entropy h))
                     (filter (\<lambda>u. u = Decrypt \<or> u = UnwrapKey) us) ext)
                  (TestPublic (of_nat (entropy h))
                     (filter (\<lambda>u. u = Encrypt \<or> u = WrapKey) us) True))
           else Inl NotSupported,
           h\<lparr>entropy := entropy h + 1\<rparr>)
      | RsaHashedImportParams name hash \<Rightarrow> (Inl NotSupported, h))"

definition test_exportKey :: "KeyFormat \<Rightarrow> test_key \<Rightarrow> test_error + bytes" where
  "test_exportKey fmt key =
     (case key of
        TestPublic m us ext \<Rightarrow> if ext then Inr [m] else Inl InvalidAccess
      | TestPrivate m us ext \<Rightarrow> Inl InvalidAccess)"

definition test_importKey ::
  "KeyFormat \<Rightarrow> bytes \<Rightarrow> Algorithm \<Rightarrow> bool \<Rightarrow> KeyUsage list \<Rightarrow> test_host
     \<Rightarrow> (test_error + test_key) \<times> test_host" where
  "test_importKey fmt bs alg ext us h =
     (case bs of
        [m] \<Rightarrow>
          (if list_all (\<lambda>u. u = Encrypt \<or> u = WrapKey) us
           then Inr (TestPublic m us ext) else Inl InvalidAccess, h)
      | _ \<Rightarrow> (Inl BadSpki, h))"

definition test_usages :: "test_key \<Rightarrow> KeyUsage list" where
  "test_usages key = (case key of TestPrivate m us ext \<Rightarrow> us | TestPublic m us ext \<Rightarrow> us)"

definition test_extractable :: "test_key \<Rightarrow> bool" where
  "test_extractable key =
     (case key of TestPrivate m us ext \<Rightarrow> ext | TestPublic m us ext \<Rightarrow> ext)"

definition test_decrypt :: "test_key \<Rightarrow> bytes \<Rightarrow> test_error + bytes" where
  "test_decrypt key c =
     (case key of
        TestPrivate m us ext \<Rightarrow> Inr (map (\<lambda>b. b - m) c)
      | TestPublic m us ext \<Rightarrow> Inl InvalidAccess)"

definition test_env :: "(string, test_key, test_error, test_host) collaborators" where
  "test_env =
     \<lparr>Password_recall = test_recall,
      Password_wrap = test_wrap,
      Password_unwrap = test_unwrap,
      base16_encode = test_encode,
      base16_decode = test_decode,
      crypto_getRandomValues = test_getRandomValues,
      subtle_generateKey = test_generateKey,
      subtle_exportKey = test_exportKey,
      subtle_importKey = test_importKey,
      settles_first = (\<lambda>h. True),
      CryptoKey_usages = test_usages,
      CryptoKey_extractable = test_extractable,
      subtle_decrypt = test_decrypt\<rparr>"

text \<open>An empty world; \<open>test_world None\<close> has no remembered password.\<close>

definition test_world :: "string option \<Rightarrow> (string, test_key, test_host) world" where
  "test_world pw =
     \<lparr>host_state = \<lparr>remembered = pw, entropy = 7\<rparr>, objects = [], calls = []\<rparr>"

text \<open>
  One run on these collaborators: generate an envelope in the empty world, then
  export it under the password \<open>''P1''\<close>. \<open>sample_record\<close> is the record that the
  export returns.
\<close>

definition sample_generate ::
  "(test_error + nat) \<times> (string, test_key, test_host) world" where
  "sample_generate = Cipher_generate test_env (test_world None)"

definition sample_export ::
  "(test_error + EnvelopeRecord) \<times> (string, test_key, test_host) world" where
  "sample_export = Cipher_export test_env 0 (Some ''P1'') (snd sample_generate)"

definition sample_record :: EnvelopeRecord where
  "sample_record =
     \<lparr>field_k = ''170708090a0b0c0d0e0f101112131415165031'',
      field_p = ''17'',
      field_s = ''0708090a0b0c0d0e0f10111213141516''\<rparr>"

text \<open>The same record with a \<^verbatim>\<open>k\<close> field that is not hexadecimal.\<close>

definition malformed_record :: EnvelopeRecord where
  "malformed_record = sample_record\<lparr>field_k := ''not-hex''\<rparr>"

text \<open>
  An envelope built directly with the (public) constructor around a one-byte salt,
  and the record its export returns under \<open>''P1''\<close>.
\<close>

definition short_salt_envelope :: "test_key Cipher" where
  "short_salt_envelope =
     \<lparr>privateKey = TestPrivate 23 [Decrypt, UnwrapKey] True,
      publicKey = TestPublic 23 [Encrypt, WrapKey] True,
      salt = [0]\<rparr>"

definition short_salt_world :: "(string, test_key, test_host) world" where
  "short_salt_world = snd (Cipher_constructor short_salt_envelope (test_world None))"

definition short_salt_record :: EnvelopeRecord where
  "short_salt_record = \<lparr>field_k = ''17005031'', field_p = ''17'', field_s = ''00''\<rparr>"

text \<open>The sample record imported again under the password it was exported with.\<close>

definition sample_import ::
  "(test_error + nat) \<times> (string, test_key, test_host) world" where
  "sample_import = Cipher_import test_env sample_record (Some ''P1'') (snd sample_export)"

text \<open>The world after the sample generation, with \<open>''P1''\<close> remembered by the host.\<close>

definition remembering_world :: "(string, test_key, test_host) world" where
  "remembering_world =
     (snd sample_generate)\<lparr>host_state := \<lparr>remembered = Some ''P1'', entropy = 24\<rparr>\<rparr>"

text \<open>The short-salt record imported again, after the envelope it was exported from.\<close>

definition short_salt_import ::
  "(test_error + nat) \<times> (string, test_key, test_host) world" where
  "short_salt_import =
     Cipher_import test_env short_salt_record (Some ''P1'') short_salt_world"

section \<open>Properties\<close>

subsection \<open>The concrete collaborators keep the promises\<close>

lemma upt_16: "[0..<16] = [0, 1, 2, 3, 4, 5, 6, 7, 8, 9, 10, 11, 12, 13, 14, 15]"
  by code_simp

lemma hex_value_hex_digit:
  assumes "n < 16"
  shows "hex_value (hex_digit n) = Some n"
proof -
  have "\<forall>k \<in> set [0..<16]. hex_value (hex_digit k) = Some k"
    unfolding upt_16 by (simp add: hex_value_def hex_digit_def)
  with assms show ?thesis
    by simp
qed

lemma byte_of_nibbles: "(of_nat (16 * (unat b div 16) + unat b mod 16) :: byte) = b"
  by (simp add: mult.commute)

lemma spec_decode_encode: "spec_decode (spec_encode bs) = Some bs"
proof (induction bs)
  case Nil
  show ?case by simp
next
  case (Cons b bs)
  have "unat b < 256"
    using unsigned_less [of b] by simp
  then have hi: "unat b div 16 < 16"
    by simp
  have lo: "unat b mod 16 < 16"
    by simp
  show ?case
    using Cons.IH
    by (simp add: hex_value_hex_digit [OF hi] hex_value_hex_digit [OF lo] byte_of_nibbles
        del: of_nat_add of_nat_mult)
qed

lemma spec_decode_None_iff: "spec_decode x = None \<longleftrightarrow> \<not> valid_hex x"
  by (induction x rule: induct_list012) (auto simp: valid_hex_def split: option.splits)

lemma test_hex_inverse: "hex_inverse test_env"
  by (simp add: hex_inverse_def test_env_def test_decode_def test_encode_def spec_decode_encode)

lemma test_decode_rejects_invalid: "decode_rejects_invalid test_env"
  by (auto simp: decode_rejects_invalid_def test_env_def test_decode_def
      spec_decode_None_iff [symmetric])

lemma password_bytes_inj: "password_bytes a = password_bytes b \<Longrightarrow> a = b"
proof -
  have "inj (\<lambda>c::char. (of_nat (of_char c) :: byte))"
  proof (rule injI)
    fix x y :: char
    assume "(of_nat (of_char x) :: byte) = of_nat (of_char y)"
    then have "unat (of_nat (of_char x) :: byte) = unat (of_nat (of_char y) :: byte)"
      by simp
    then have "(of_char x :: nat) = of_char y"
      by (simp add: unat_of_nat)
    then show "x = y"
      by simp
  qed
  then show "password_bytes a = password_bytes b \<Longrightarrow> a = b"
    by (simp add: password_bytes_def inj_map_eq_map)
qed

lemma test_wrap_unwrap_roundtrip: "wrap_unwrap_roundtrip test_env"
  by (auto simp: wrap_unwrap_roundtrip_def test_env_def test_wrap_def test_unwrap_def
      test_decrypt_def split: test_key.splits if_splits)

lemma test_unwrap_rejects_wrong_password: "unwrap_rejects_wrong_password test_env"
  by (auto simp: unwrap_rejects_wrong_password_def test_env_def test_wrap_def test_unwrap_def
      split: test_key.splits if_splits dest: password_bytes_inj)

lemma test_spki_roundtrip: "spki_roundtrip test_env"
  by (auto simp: spki_roundtrip_def test_env_def test_generateKey_def test_exportKey_def
      test_importKey_def list_all_iff split: test_key.splits if_splits)

lemma test_getRandomValues_fills: "getRandomValues_fills test_env"
  by (auto simp: getRandomValues_fills_def test_env_def test_getRandomValues_def)

lemma test_generateKey_grants: "generateKey_grants test_env"
  by (auto simp: generateKey_grants_def test_env_def test_generateKey_def test_usages_def
      test_extractable_def split: if_splits)

lemma test_importKey_grants: "importKey_grants test_env"
  by (auto simp: importKey_grants_def test_env_def test_importKey_def test_usages_def
      test_extractable_def split: if_splits list.splits)

subsection \<open>What each method does when it succeeds\<close>

lemma password_or_recall_objects:
  "password_or_recall env password w = (r, w1) \<Longrightarrow> objects w1 = objects w"
  by (auto simp: password_or_recall_def invoke_def split: option.splits prod.splits)

lemma password_or_recall_calls:
  "password_or_recall env password w = (r, w1) \<Longrightarrow>
     calls w1 = calls w @ (case password of Some pw \<Rightarrow> [] | None \<Rightarrow> [Recall])"
  by (auto simp: password_or_recall_def invoke_def split: option.splits prod.splits)

lemma generate_success:
  assumes "Cipher_generate env w = (Inr a, w')"
  shows "\<exists>s h1 pair h2.
      crypto_getRandomValues env (Uint8Array 16) (host_state w) = (Inr s, h1) \<and>
      subtle_generateKey env (RsaHashedKeyGenParams ''RSA-OAEP'' 4096 [1, 0, 1] ''SHA-256'')
        True [Encrypt, Decrypt, WrapKey, UnwrapKey] h1 = (Inr pair, h2) \<and>
      a = length (objects w) \<and>
      w' = w\<lparr>host_state := h2,
             objects := objects w @
               [\<lparr>privateKey = keyPair_privateKey pair, publicKey = keyPair_publicKey pair,
                 salt = s\<rparr>],
             calls := calls w @
               [GetRandomValues (Uint8Array 16),
                GenerateKey (RsaHashedKeyGenParams ''RSA-OAEP'' 4096 [1, 0, 1] ''SHA-256'')
                  True [Encrypt, Decrypt, WrapKey, UnwrapKey]]\<rparr>"
  using assms
  by (auto simp: Cipher_generate_def Cipher_constructor_def invoke_def
      split: prod.splits sum.splits)

lemma export_success:
  assumes "Cipher_export env this password w = (Inr r, w')"
  shows "\<exists>pw w1 wrapped h exported.
      password_or_recall env password w = (Inr pw, w1) \<and>
      Password_wrap env pw (privateKey (objects w ! this)) (salt (objects w ! this))
        (host_state w1) = (Inr wrapped, h) \<and>
      subtle_exportKey env Spki (publicKey (objects w ! this)) = Inr exported \<and>
      r = \<lparr>field_k = base16_encode env wrapped, field_p = base16_encode env exported,
           field_s = base16_encode env (salt (objects w ! this))\<rparr> \<and>
      w' = w1\<lparr>host_state := h,
             calls := calls w1 @
               [Wrap pw (privateKey (objects w ! this)) (salt (objects w ! this)),
                ExportKey Spki (publicKey (objects w ! this)),
                Encode wrapped, Encode exported, Encode (salt (objects w ! this))]\<rparr>"
  using assms
  by (auto simp: Cipher_export_def password_or_recall_def invoke_def invoke_pure_def Let_def
      split: prod.splits sum.splits option.splits)

lemma import_success:
  assumes "Cipher_import env rec password w = (Inr b, w')"
  shows "\<exists>pw w1 s exported wrapped key h1 pub h2.
      password_or_recall env password w = (Inr pw, w1) \<and>
      base16_decode env (field_s rec) = Inr s \<and>
      base16_decode env (field_p rec) = Inr exported \<and>
      base16_decode env (field_k rec) = Inr wrapped \<and>
      Password_unwrap env pw wrapped s (host_state w1) = (Inr key, h1) \<and>
      subtle_importKey env Spki exported (RsaHashedImportParams ''RSA-OAEP'' ''SHA-256'')
        True [Encrypt, WrapKey] h1 = (Inr pub, h2) \<and>
      b = length (objects w) \<and>
      w' = w1\<lparr>host_state := h2,
             objects := objects w @ [\<lparr>privateKey = key, publicKey = pub, salt = s\<rparr>],
             calls := calls w1 @
               [Decode (field_s rec), Decode (field_p rec), Decode (field_k rec),
                Unwrap pw wrapped s,
                ImportKey Spki exported (RsaHashedImportParams ''RSA-OAEP'' ''SHA-256'')
                  True [Encrypt, WrapKey]]\<rparr>"
  using assms
  by (auto simp: Cipher_import_def Cipher_constructor_def password_or_recall_def invoke_def
      invoke_pure_def Promise_all_def
      split: prod.splits sum.splits option.splits)

text \<open>
  \<^verbatim>\<open>import\<close> with a password in hand and three fields that decode: both calls are
  made, and \<^verbatim>\<open>Promise.all\<close> decides.
\<close>

lemma import_run:
  assumes "base16_decode env (field_s rec) = Inr s"
    and "base16_decode env (field_p rec) = Inr exported"
    and "base16_decode env (field_k rec) = Inr wrapped"
    and "Password_unwrap env pw wrapped s (host_state w) = (x, h1)"
    and "subtle_importKey env Spki exported (RsaHashedImportParams ''RSA-OAEP'' ''SHA-256'')
           True [Encrypt, WrapKey] h1 = (y, h2)"
  shows "Cipher_import env rec (Some pw) w =
     (let w6 = w\<lparr>host_state := h2,
                 calls := calls w @
                   [Decode (field_s rec), Decode (field_p rec), Decode (field_k rec),
                    Unwrap pw wrapped s,
                    ImportKey Spki exported (RsaHashedImportParams ''RSA-OAEP'' ''SHA-256'')
                      True [Encrypt, WrapKey]]\<rparr>
      in case Promise_all (settles_first env h2) x y of
           Inl e \<Rightarrow> (Inl e, w6)
         | Inr (key, pub) \<Rightarrow>
             (Inr (length (objects w)),
              w6\<lparr>objects := objects w @ [\<lparr>privateKey = key, publicKey = pub, salt = s\<rparr>]\<rparr>))"
  using assms
  by (simp add: Cipher_import_def Cipher_constructor_def password_or_recall_def invoke_def
      invoke_pure_def Let_def split: sum.splits prod.splits)

text \<open>No method removes or rewrites an object.\<close>

lemma export_objects:
  "Cipher_export env this password w = (x, w') \<Longrightarrow> objects w' = objects w"
  by (auto simp: Cipher_export_def password_or_recall_def invoke_def invoke_pure_def Let_def
      split: option.splits prod.splits sum.splits)

lemma generate_objects:
  "Cipher_generate env w = (g, w') \<Longrightarrow> \<exists>new. objects w' = objects w @ new"
  by (auto simp: Cipher_generate_def Cipher_constructor_def invoke_def
      split: prod.splits sum.splits)

lemma import_objects:
  "Cipher_import env rec password w = (y, w') \<Longrightarrow> \<exists>new. objects w' = objects w @ new"
  by (auto simp: Cipher_import_def Cipher_constructor_def password_or_recall_def invoke_def
      invoke_pure_def split: prod.splits sum.splits option.splits)

subsection \<open>Using the promises\<close>

text \<open>The SPKI promise, at the call \<^verbatim>\<open>import\<close> makes.\<close>

lemma spki_roundtrip_import:
  assumes spki: "spki_roundtrip env"
    and key_gen: "subtle_generateKey env (RsaHashedKeyGenParams ''RSA-OAEP'' n e ''SHA-256'')
        ext us h0 = (Inr pair, h1)"
    and bs: "subtle_exportKey env Spki (keyPair_publicKey pair) = Inr bs"
  shows "\<exists>key' h3.
      subtle_importKey env Spki bs (RsaHashedImportParams ''RSA-OAEP'' ''SHA-256'')
        True [Encrypt, WrapKey] h2 = (Inr key', h3) \<and>
      subtle_exportKey env Spki key' = Inr bs"
proof -
  note inst = spki [unfolded spki_roundtrip_def, rule_format]
  have "\<exists>key' h3.
      subtle_importKey env Spki bs (RsaHashedImportParams ''RSA-OAEP'' ''SHA-256'')
        True [Encrypt, WrapKey] h2 = (Inr key', h3) \<and>
      (True \<longrightarrow> subtle_exportKey env Spki key' = Inr bs)"
  proof (rule inst, intro conjI)
    show "subtle_generateKey env (RsaHashedKeyGenParams ''RSA-OAEP'' n e ''SHA-256'')
        ext us h0 = (Inr pair, h1)"
      by (rule key_gen)
    show "subtle_exportKey env Spki (keyPair_publicKey pair) = Inr bs"
      by (rule bs)
    show "set [Encrypt, WrapKey] \<subseteq> {Encrypt, WrapKey}"
      by simp
  qed
  then show ?thesis
    by simp
qed

lemma decode_failure:
  assumes "isl (base16_decode env x)"
  obtains e where "base16_decode env x = Inl e"
  using assms by (cases "base16_decode env x") auto

lemma decode_success:
  assumes "\<not> isl (base16_decode env x)"
  obtains bs where "base16_decode env x = Inr bs"
  using assms by (cases "base16_decode env x") auto

lemma BigInteger_65537: "BigInteger_value [1, 0, 1] = 65537"
  by (simp add: BigInteger_value_def)

subsection \<open>The sample run, evaluated\<close>

lemmas test_defs =
  test_env_def test_world_def test_recall_def test_wrap_def test_unwrap_def test_encode_def
  test_decode_def test_getRandomValues_def test_generateKey_def test_exportKey_def
  test_importKey_def test_usages_def test_extractable_def test_decrypt_def password_bytes_def

lemmas method_defs =
  Cipher_generate_def Cipher_export_def Cipher_import_def Cipher_constructor_def
  password_or_recall_def invoke_def invoke_pure_def Promise_all_def Uint8Array_def

lemma replicate_16: "replicate 16 x = [x, x, x, x, x, x, x, x, x, x, x, x, x, x, x, x]"
  by (simp add: numeral_eq_Suc)

lemma sample_generate_value:
  "sample_generate =
     (Inr 0,
      \<lparr>host_state = \<lparr>remembered = None, entropy = 24\<rparr>,
       objects =
         [\<lparr>privateKey = TestPrivate 23 [Decrypt, UnwrapKey] True,
           publicKey = TestPublic 23 [Encrypt, WrapKey] True,
           salt = [7, 8, 9, 10, 11, 12, 13, 14, 15, 16, 17, 18, 19, 20, 21, 22]\<rparr>],
       calls =
         [GetRandomValues [0, 0, 0, 0, 0, 0, 0, 0, 0, 0, 0, 0, 0, 0, 0, 0],
          GenerateKey (RsaHashedKeyGenParams ''RSA-OAEP'' 4096 [1, 0, 1] ''SHA-256'')
            True [Encrypt, Decrypt, WrapKey, UnwrapKey]]\<rparr>)"
  by (simp add: sample_generate_def method_defs test_defs upt_16 replicate_16)

lemma sample_generate_run:
  "Cipher_generate test_env (test_world None) = (Inr 0, snd sample_generate)"
  using sample_generate_value by (simp add: sample_generate_def)

lemma sample_export_fst: "fst sample_export = Inr sample_record"
  by (simp add: sample_export_def sample_generate_value sample_record_def method_defs test_defs
      hex_digit_def)

lemma sample_export_run:
  "Cipher_export test_env 0 (Some ''P1'') (snd sample_generate)
     = (Inr sample_record, snd sample_export)"
  using sample_export_fst by (simp add: sample_export_def prod_eq_iff)

lemma sample_import_fst: "fst sample_import = Inr 1"
  unfolding sample_import_def sample_export_def sample_generate_def sample_record_def
  by code_simp

lemma sample_import_run:
  "Cipher_import test_env sample_record (Some ''P1'') (snd sample_export)
     = (Inr 1, snd sample_import)"
  using sample_import_fst by (simp add: sample_import_def prod_eq_iff)

section \<open>The claims\<close>

subsection \<open>Round trip\<close>

text \<open>
  Claim C1. For every password \<open>P\<close>: when \<^verbatim>\<open>generate()\<close> returned an envelope and
  \<^verbatim>\<open>export(P)\<close> of it returned a record, \<^verbatim>\<open>import(record, P)\<close>, run in any world
  at all (one that holds the original envelope or not), returns a reference to one
  new envelope, appended after the existing objects, whose public key exports to the
  same SPKI bytes as the original, whose private key decrypts every ciphertext as
  the original private key does, and whose salt is the original's. The collaborators
  are assumed to keep their interfaces: \<^verbatim>\<open>decode\<close> undoes \<^verbatim>\<open>encode\<close>, \<^verbatim>\<open>unwrap\<close>
  undoes \<^verbatim>\<open>wrap\<close> on the same password and salt, and SPKI export and import round-trip
  the public key.
\<close>

theorem import_export_generate_roundtrip:
  assumes hex: "hex_inverse env"
    and wrap: "wrap_unwrap_roundtrip env"
    and spki: "spki_roundtrip env"
    and gen: "Cipher_generate env w0 = (Inr a, w1)"
    and exp: "Cipher_export env a (Some P) w1 = (Inr r, w2)"
  shows "\<exists>w3 bs.
      Cipher_import env r (Some P) w = (Inr (length (objects w)), w3) \<and>
      objects w3 = objects w @ [objects w3 ! length (objects w)] \<and>
      subtle_exportKey env Spki (publicKey (objects w1 ! a)) = Inr bs \<and>
      subtle_exportKey env Spki (publicKey (objects w3 ! length (objects w))) = Inr bs \<and>
      (\<forall>c. subtle_decrypt env (privateKey (objects w3 ! length (objects w))) c =
           subtle_decrypt env (privateKey (objects w1 ! a)) c) \<and>
      salt (objects w3 ! length (objects w)) = salt (objects w1 ! a)"
proof -
  let ?alg = "RsaHashedKeyGenParams ''RSA-OAEP'' 4096 [1, 0, 1] ''SHA-256''"
  let ?imp = "RsaHashedImportParams ''RSA-OAEP'' ''SHA-256''"
  from generate_success [OF gen] obtain s h1 pair h2 where
    key_gen: "subtle_generateKey env ?alg True [Encrypt, Decrypt, WrapKey, UnwrapKey] h1
      = (Inr pair, h2)"
    and a: "a = length (objects w0)"
    and obj: "objects w1 = objects w0 @
      [\<lparr>privateKey = keyPair_privateKey pair, publicKey = keyPair_publicKey pair, salt = s\<rparr>]"
    by auto
  have at_a: "objects w1 ! a =
      \<lparr>privateKey = keyPair_privateKey pair, publicKey = keyPair_publicKey pair, salt = s\<rparr>"
    by (simp add: a obj)
  from export_success [OF exp] at_a obtain wrapped h bs where
    wrapped: "Password_wrap env P (keyPair_privateKey pair) s (host_state w1) = (Inr wrapped, h)"
    and bs: "subtle_exportKey env Spki (keyPair_publicKey pair) = Inr bs"
    and r: "r = \<lparr>field_k = base16_encode env wrapped, field_p = base16_encode env bs,
                 field_s = base16_encode env s\<rparr>"
    by (auto simp: password_or_recall_def)
  from wrap wrapped obtain key' h3 where
    unwrapped: "Password_unwrap env P wrapped s (host_state w) = (Inr key', h3)"
    and same: "\<forall>c. subtle_decrypt env key' c = subtle_decrypt env (keyPair_privateKey pair) c"
    unfolding wrap_unwrap_roundtrip_def by blast
  from spki_roundtrip_import [OF spki key_gen bs] obtain pub h4 where
    imported: "subtle_importKey env Spki bs ?imp True [Encrypt, WrapKey] h3 = (Inr pub, h4)"
    and again: "subtle_exportKey env Spki pub = Inr bs"
    by blast
  have decoded: "base16_decode env (field_s r) = Inr s" "base16_decode env (field_p r) = Inr bs"
    "base16_decode env (field_k r) = Inr wrapped"
    using hex by (simp_all add: r hex_inverse_def)
  have "fst (Cipher_import env r (Some P) w) = Inr (length (objects w))"
    and "objects (snd (Cipher_import env r (Some P) w))
       = objects w @ [\<lparr>privateKey = key', publicKey = pub, salt = s\<rparr>]"
    by (simp_all add: import_run [OF decoded unwrapped imported] Promise_all_def)
  then show ?thesis
    using at_a bs again same by (cases "Cipher_import env r (Some P) w") auto
qed

theorem import_export_generate_roundtrip_witness:
  "Cipher_generate test_env (test_world None) = (Inr 0, snd sample_generate) \<and>
   Cipher_export test_env 0 (Some ''P1'') (snd sample_generate)
     = (Inr sample_record, snd sample_export) \<and>
   (\<exists>w3 bs.
      Cipher_import test_env sample_record (Some ''P1'') (test_world None)
        = (Inr (length (objects (test_world None))), w3) \<and>
      objects w3 = objects (test_world None) @ [objects w3 ! length (objects (test_world None))] \<and>
      subtle_exportKey test_env Spki (publicKey (objects (snd sample_generate) ! 0)) = Inr bs \<and>
      subtle_exportKey test_env Spki
        (publicKey (objects w3 ! length (objects (test_world None)))) = Inr bs \<and>
      (\<forall>c. subtle_decrypt test_env
             (privateKey (objects w3 ! length (objects (test_world None)))) c =
           subtle_decrypt test_env (privateKey (objects (snd sample_generate) ! 0)) c) \<and>
      salt (objects w3 ! length (objects (test_world None)))
        = salt (objects (snd sample_generate) ! 0))"
  using import_export_generate_roundtrip [OF test_hex_inverse test_wrap_unwrap_roundtrip
      test_spki_roundtrip sample_generate_run sample_export_run, of "test_world None"]
    sample_generate_run sample_export_run
  by blast

subsection \<open>Wrong password\<close>

text \<open>
  Claim C2. For passwords \<open>P1 \<noteq> P2\<close>: when \<^verbatim>\<open>generate()\<close> returned an envelope and
  \<^verbatim>\<open>export(P1)\<close> of it returned a record, \<^verbatim>\<open>import(record, P2)\<close> is rejected and
  builds no envelope; \<^verbatim>\<open>unwrap\<close> was called on \<open>P2\<close>, the decoded \<^verbatim>\<open>k\<close> field and the
  envelope's salt, and rejected; and the reason \<^verbatim>\<open>import\<close> is rejected with is that
  of \<^verbatim>\<open>unwrap\<close> whenever the public key imports (SPKI round trip). Assumed of the
  password provider: \<^verbatim>\<open>unwrap\<close> rejects on a password other than the one that wrapped;
  of the hex codec: \<^verbatim>\<open>decode\<close> undoes \<^verbatim>\<open>encode\<close>.
\<close>

theorem import_wrong_password_fails:
  assumes hex: "hex_inverse env"
    and wrong: "unwrap_rejects_wrong_password env"
    and gen: "Cipher_generate env w0 = (Inr a, w1)"
    and exp: "Cipher_export env a (Some P1) w1 = (Inr r, w2)"
    and differ: "P2 \<noteq> P1"
  shows "\<exists>e w3 wrapped e' h.
      Cipher_import env r (Some P2) w2 = (Inl e, w3) \<and>
      objects w3 = objects w2 \<and>
      base16_decode env (field_k r) = Inr wrapped \<and>
      Password_unwrap env P2 wrapped (salt (objects w1 ! a)) (host_state w2) = (Inl e', h) \<and>
      (spki_roundtrip env \<longrightarrow> e = e')"
proof -
  let ?alg = "RsaHashedKeyGenParams ''RSA-OAEP'' 4096 [1, 0, 1] ''SHA-256''"
  let ?imp = "RsaHashedImportParams ''RSA-OAEP'' ''SHA-256''"
  from generate_success [OF gen] obtain s h1 pair h2 where
    key_gen: "subtle_generateKey env ?alg True [Encrypt, Decrypt, WrapKey, UnwrapKey] h1
      = (Inr pair, h2)"
    and a: "a = length (objects w0)"
    and obj: "objects w1 = objects w0 @
      [\<lparr>privateKey = keyPair_privateKey pair, publicKey = keyPair_publicKey pair, salt = s\<rparr>]"
    by auto
  have at_a: "objects w1 ! a =
      \<lparr>privateKey = keyPair_privateKey pair, publicKey = keyPair_publicKey pair, salt = s\<rparr>"
    by (simp add: a obj)
  from export_success [OF exp] at_a obtain wrapped h bs where
    wrapped: "Password_wrap env P1 (keyPair_privateKey pair) s (host_state w1) = (Inr wrapped, h)"
    and bs: "subtle_exportKey env Spki (keyPair_publicKey pair) = Inr bs"
    and r: "r = \<lparr>field_k = base16_encode env wrapped, field_p = base16_encode env bs,
                 field_s = base16_encode env s\<rparr>"
    by (auto simp: password_or_recall_def)
  from wrong wrapped differ obtain e' h3 where
    rejected: "Password_unwrap env P2 wrapped s (host_state w2) = (Inl e', h3)"
    unfolding unwrap_rejects_wrong_password_def by blast
  obtain y h4 where
    imported: "subtle_importKey env Spki bs ?imp True [Encrypt, WrapKey] h3 = (y, h4)"
    by (cases "subtle_importKey env Spki bs ?imp True [Encrypt, WrapKey] h3")
  have decoded: "base16_decode env (field_s r) = Inr s" "base16_decode env (field_p r) = Inr bs"
    "base16_decode env (field_k r) = Inr wrapped"
    using hex by (simp_all add: r hex_inverse_def)
  have fails: "isl (fst (Cipher_import env r (Some P2) w2))"
    and same: "objects (snd (Cipher_import env r (Some P2) w2)) = objects w2"
    by (simp_all add: import_run [OF decoded rejected imported] Promise_all_def
        split: sum.splits)
  have unwrap_reason: "fst (Cipher_import env r (Some P2) w2) = Inl e'" if "spki_roundtrip env"
  proof -
    from spki_roundtrip_import [OF that key_gen bs] obtain pub h5 where
      "subtle_importKey env Spki bs ?imp True [Encrypt, WrapKey] h3 = (Inr pub, h5)"
      by blast
    with imported have "y = Inr pub"
      by simp
    then show ?thesis
      by (simp add: import_run [OF decoded rejected imported] Promise_all_def)
  qed
  from fails obtain e where e: "fst (Cipher_import env r (Some P2) w2) = Inl e"
    by (cases "fst (Cipher_import env r (Some P2) w2)") auto
  show ?thesis
    using e same at_a decoded rejected unwrap_reason
    by (cases "Cipher_import env r (Some P2) w2") auto
qed

theorem import_wrong_password_fails_witness:
  "Cipher_generate test_env (test_world None) = (Inr 0, snd sample_generate) \<and>
   Cipher_export test_env 0 (Some ''P1'') (snd sample_generate)
     = (Inr sample_record, snd sample_export) \<and>
   ''P2'' \<noteq> ''P1'' \<and>
   spki_roundtrip test_env \<and>
   (\<exists>e w3 wrapped h.
      Cipher_import test_env sample_record (Some ''P2'') (snd sample_export) = (Inl e, w3) \<and>
      objects w3 = objects (snd sample_export) \<and>
      base16_decode test_env (field_k sample_record) = Inr wrapped \<and>
      Password_unwrap test_env ''P2'' wrapped (salt (objects (snd sample_generate) ! 0))
        (host_state (snd sample_export)) = (Inl e, h))"
proof -
  have differ: "''P2'' \<noteq> ''P1''"
    by simp
  from import_wrong_password_fails [OF test_hex_inverse test_unwrap_rejects_wrong_password
      sample_generate_run sample_export_run differ] test_spki_roundtrip
  have "\<exists>e w3 wrapped h.
      Cipher_import test_env sample_record (Some ''P2'') (snd sample_export) = (Inl e, w3) \<and>
      objects w3 = objects (snd sample_export) \<and>
      base16_decode test_env (field_k sample_record) = Inr wrapped \<and>
      Password_unwrap test_env ''P2'' wrapped (salt (objects (snd sample_generate) ! 0))
        (host_state (snd sample_export)) = (Inl e, h)"
    by blast
  with differ test_spki_roundtrip sample_generate_run sample_export_run show ?thesis
    by blast
qed

subsection \<open>Malformed records\<close>

text \<open>
  Claim C3, as the code has it. For every record in which \<^verbatim>\<open>k\<close>, \<^verbatim>\<open>p\<close> or \<^verbatim>\<open>s\<close> is
  not valid hexadecimal, and every call in which a password is at hand (supplied, or
  recalled successfully), \<^verbatim>\<open>import\<close> is rejected with what \<^verbatim>\<open>base16.decode\<close> threw
  on one of the fields; after the password is resolved the only calls made are
  \<^verbatim>\<open>decode\<close> calls, so no cryptographic operation is attempted, and no envelope is
  built. Assumed of the hex codec: \<^verbatim>\<open>decode\<close> throws on every string that is not
  valid hexadecimal.
\<close>

theorem import_rejects_malformed_record:
  assumes rejects: "decode_rejects_invalid env"
    and malformed: "\<not> valid_hex (field_k rec) \<or> \<not> valid_hex (field_p rec)
      \<or> \<not> valid_hex (field_s rec)"
    and resolved: "password_or_recall env password w = (Inr pw, w1)"
  shows "\<exists>e w' ds.
      Cipher_import env rec password w = (Inl e, w') \<and>
      (base16_decode env (field_s rec) = Inl e \<or> base16_decode env (field_p rec) = Inl e
         \<or> base16_decode env (field_k rec) = Inl e) \<and>
      calls w' = calls w1 @ map Decode ds \<and>
      \<not> (\<exists>c \<in> set (drop (length (calls w)) (calls w')). cryptographic c) \<and>
      host_state w' = host_state w1 \<and>
      objects w' = objects w"
proof -
  have log: "calls w1 = calls w @ (case password of Some pw \<Rightarrow> [] | None \<Rightarrow> [Recall])"
    using resolved by (rule password_or_recall_calls)
  have heap: "objects w1 = objects w"
    using resolved by (rule password_or_recall_objects)
  from rejects malformed have
    "isl (base16_decode env (field_k rec)) \<or> isl (base16_decode env (field_p rec))
      \<or> isl (base16_decode env (field_s rec))"
    unfolding decode_rejects_invalid_def by blast
  then consider
      (s) "isl (base16_decode env (field_s rec))"
    | (p) "\<not> isl (base16_decode env (field_s rec))" "isl (base16_decode env (field_p rec))"
    | (k) "\<not> isl (base16_decode env (field_s rec))" "\<not> isl (base16_decode env (field_p rec))"
          "isl (base16_decode env (field_k rec))"
    by blast
  then show ?thesis
  proof cases
    case s
    then obtain e where e: "base16_decode env (field_s rec) = Inl e"
      by (rule decode_failure)
    let ?w = "w1\<lparr>calls := calls w1 @ [Decode (field_s rec)]\<rparr>"
    have "Cipher_import env rec password w = (Inl e, ?w)"
      by (simp add: Cipher_import_def resolved invoke_pure_def e)
    with e log heap show ?thesis
      by (intro exI [of _ e] exI [of _ ?w] exI [of _ "[field_s rec]"])
        (auto split: option.splits)
  next
    case p
    from p(2) obtain e where e: "base16_decode env (field_p rec) = Inl e"
      by (rule decode_failure)
    from p(1) obtain s' where s': "base16_decode env (field_s rec) = Inr s'"
      by (rule decode_success)
    let ?w = "w1\<lparr>calls := calls w1 @ [Decode (field_s rec), Decode (field_p rec)]\<rparr>"
    have "Cipher_import env rec password w = (Inl e, ?w)"
      by (simp add: Cipher_import_def resolved invoke_pure_def e s')
    with e log heap show ?thesis
      by (intro exI [of _ e] exI [of _ ?w] exI [of _ "[field_s rec, field_p rec]"])
        (auto split: option.splits)
  next
    case k
    from k(3) obtain e where e: "base16_decode env (field_k rec) = Inl e"
      by (rule decode_failure)
    from k(1) obtain s' where s': "base16_decode env (field_s rec) = Inr s'"
      by (rule decode_success)
    from k(2) obtain p' where p': "base16_decode env (field_p rec) = Inr p'"
      by (rule decode_success)
    let ?w = "w1\<lparr>calls := calls w1 @
      [Decode (field_s rec), Decode (field_p rec), Decode (field_k rec)]\<rparr>"
    have "Cipher_import env rec password w = (Inl e, ?w)"
      by (simp add: Cipher_import_def resolved invoke_pure_def e s' p')
    with e log heap show ?thesis
      by (intro exI [of _ e] exI [of _ ?w]
          exI [of _ "[field_s rec, field_p rec, field_k rec]"]) (auto split: option.splits)
  qed
qed

theorem import_rejects_malformed_record_witness:
  "\<not> valid_hex (field_k malformed_record) \<and>
   password_or_recall test_env (Some ''P1'') (test_world None) = (Inr ''P1'', test_world None) \<and>
   (\<exists>e w' ds.
      Cipher_import test_env malformed_record (Some ''P1'') (test_world None) = (Inl e, w') \<and>
      (base16_decode test_env (field_s malformed_record) = Inl e
         \<or> base16_decode test_env (field_p malformed_record) = Inl e
         \<or> base16_decode test_env (field_k malformed_record) = Inl e) \<and>
      calls w' = calls (test_world None) @ map Decode ds \<and>
      \<not> (\<exists>c \<in> set (drop (length (calls (test_world None))) (calls w')). cryptographic c) \<and>
      host_state w' = host_state (test_world None) \<and>
      objects w' = objects (test_world None))"
proof -
  have bad: "\<not> valid_hex (field_k malformed_record)"
    by (simp add: malformed_record_def valid_hex_def hex_value_def)
  then have malformed: "\<not> valid_hex (field_k malformed_record)
      \<or> \<not> valid_hex (field_p malformed_record) \<or> \<not> valid_hex (field_s malformed_record)"
    by simp
  have resolved:
    "password_or_recall test_env (Some ''P1'') (test_world None) = (Inr ''P1'', test_world None)"
    by (simp add: password_or_recall_def)
  from import_rejects_malformed_record [OF test_decode_rejects_invalid malformed resolved]
    bad resolved
  show ?thesis
    by blast
qed

text \<open>
  The claim as written, for every call, fails where no password is supplied and
  \<^verbatim>\<open>recall\<close> rejects: line 74 runs before the fields are decoded, so \<^verbatim>\<open>import\<close> is
  rejected with the reason of \<^verbatim>\<open>recall\<close>, not of \<^verbatim>\<open>decode\<close>, and \<^verbatim>\<open>decode\<close> is
  never called.
\<close>

theorem import_malformed_record_counterexample:
  "\<not> valid_hex (field_k malformed_record) \<and>
   base16_decode test_env (field_k malformed_record) = Inl NotHex \<and>
   Cipher_import test_env malformed_record None (test_world None)
     = (Inl NoPassword, (test_world None)\<lparr>calls := [Recall]\<rparr>) \<and>
   NoPassword \<noteq> NotHex"
  by (simp add: malformed_record_def sample_record_def valid_hex_def hex_value_def
      method_defs test_defs)

subsection \<open>Salt stability\<close>

text \<open>
  Claim C4. For every envelope and every successful export of it, hex-decoding the
  \<^verbatim>\<open>s\<close> field of the returned record gives exactly the salt bytes the envelope holds
  (before the export and after it), provided \<^verbatim>\<open>decode\<close> undoes \<^verbatim>\<open>encode\<close>.
\<close>

theorem export_salt_stable:
  assumes "hex_inverse env"
    and "Cipher_export env this password w = (Inr r, w')"
  shows "base16_decode env (field_s r) = Inr (salt (objects w ! this)) \<and>
    salt (objects w' ! this) = salt (objects w ! this)"
  using assms
  by (auto simp: Cipher_export_def password_or_recall_def invoke_def invoke_pure_def Let_def
      hex_inverse_def split: option.splits prod.splits sum.splits)

theorem export_salt_stable_witness:
  "Cipher_export test_env 0 (Some ''P1'') (snd sample_generate)
     = (Inr sample_record, snd sample_export) \<and>
   base16_decode test_env (field_s sample_record)
     = Inr (salt (objects (snd sample_generate) ! 0)) \<and>
   salt (objects (snd sample_export) ! 0) = salt (objects (snd sample_generate) ! 0)"
  using export_salt_stable [OF test_hex_inverse sample_export_run] sample_export_run
  by simp

subsection \<open>Generation parameters\<close>

text \<open>
  Claim C5. A successful \<^verbatim>\<open>generate()\<close> has asked the host to fill a 16-byte array
  and taken the result as the salt, which is 16 bytes long, and has asked for an
  RSA-OAEP key pair with modulus length 4096, public exponent \<^verbatim>\<open>[1, 0, 1]\<close> (65537)
  and hash SHA-256; the private key of the envelope has the usages decrypt and
  unwrapKey, the public key encrypt and wrapKey. Assumed of the host:
  \<^verbatim>\<open>getRandomValues\<close> returns an array of the length it was given, and
  \<^verbatim>\<open>generateKey\<close> splits the requested usages between the two keys.
\<close>

theorem generate_salt_and_key_pair:
  assumes gen: "Cipher_generate env w = (Inr a, w')"
    and fills: "getRandomValues_fills env"
    and grants: "generateKey_grants env"
  shows "\<exists>s h1 pair h2.
      crypto_getRandomValues env (Uint8Array 16) (host_state w) = (Inr s, h1) \<and>
      subtle_generateKey env (RsaHashedKeyGenParams ''RSA-OAEP'' 4096 [1, 0, 1] ''SHA-256'')
        True [Encrypt, Decrypt, WrapKey, UnwrapKey] h1 = (Inr pair, h2) \<and>
      BigInteger_value [1, 0, 1] = 65537 \<and>
      objects w' ! a =
        \<lparr>privateKey = keyPair_privateKey pair, publicKey = keyPair_publicKey pair, salt = s\<rparr> \<and>
      length s = 16 \<and>
      set (CryptoKey_usages env (privateKey (objects w' ! a))) = {Decrypt, UnwrapKey} \<and>
      set (CryptoKey_usages env (publicKey (objects w' ! a))) = {Encrypt, WrapKey}"
proof -
  from generate_success [OF gen] obtain s h1 pair h2 where
    rnd: "crypto_getRandomValues env (Uint8Array 16) (host_state w) = (Inr s, h1)"
    and key_gen: "subtle_generateKey env
        (RsaHashedKeyGenParams ''RSA-OAEP'' 4096 [1, 0, 1] ''SHA-256'')
        True [Encrypt, Decrypt, WrapKey, UnwrapKey] h1 = (Inr pair, h2)"
    and at_a: "objects w' ! a =
      \<lparr>privateKey = keyPair_privateKey pair, publicKey = keyPair_publicKey pair, salt = s\<rparr>"
    by auto
  from fills rnd have "length s = length (Uint8Array 16)"
    unfolding getRandomValues_fills_def by blast
  then have len: "length s = 16"
    by (simp add: Uint8Array_def)
  from grants key_gen have
    "set (CryptoKey_usages env (keyPair_privateKey pair))
       = set [Encrypt, Decrypt, WrapKey, UnwrapKey] \<inter> {Decrypt, UnwrapKey}"
    and "set (CryptoKey_usages env (keyPair_publicKey pair))
       = set [Encrypt, Decrypt, WrapKey, UnwrapKey] \<inter> {Encrypt, WrapKey}"
    unfolding generateKey_grants_def by blast+
  then have "set (CryptoKey_usages env (keyPair_privateKey pair)) = {Decrypt, UnwrapKey}"
    and "set (CryptoKey_usages env (keyPair_publicKey pair)) = {Encrypt, WrapKey}"
    by auto
  with rnd key_gen at_a len BigInteger_65537 show ?thesis
    by auto
qed

theorem generate_salt_and_key_pair_witness:
  "Cipher_generate test_env (test_world None) = (Inr 0, snd sample_generate) \<and>
   (\<exists>s h1 pair h2.
      crypto_getRandomValues test_env (Uint8Array 16) (host_state (test_world None))
        = (Inr s, h1) \<and>
      subtle_generateKey test_env
        (RsaHashedKeyGenParams ''RSA-OAEP'' 4096 [1, 0, 1] ''SHA-256'')
        True [Encrypt, Decrypt, WrapKey, UnwrapKey] h1 = (Inr pair, h2) \<and>
      BigInteger_value [1, 0, 1] = 65537 \<and>
      objects (snd sample_generate) ! 0 =
        \<lparr>privateKey = keyPair_privateKey pair, publicKey = keyPair_publicKey pair, salt = s\<rparr> \<and>
      length s = 16 \<and>
      set (CryptoKey_usages test_env (privateKey (objects (snd sample_generate) ! 0)))
        = {Decrypt, UnwrapKey} \<and>
      set (CryptoKey_usages test_env (publicKey (objects (snd sample_generate) ! 0)))
        = {Encrypt, WrapKey})"
  using generate_salt_and_key_pair [OF sample_generate_run test_getRandomValues_fills
      test_generateKey_grants] sample_generate_run
  by blast

subsection \<open>Usages of the imported public key\<close>

text \<open>
  Claim C6. For every record that \<^verbatim>\<open>import\<close> accepts, the public key is imported
  with the usages \<^verbatim>\<open>['encrypt', 'wrapKey']\<close>, so its usages are exactly encrypt and
  wrapKey, and they are the usages of the public key of any generated envelope.
  Assumed of the host: an imported key gets the usages requested, and \<^verbatim>\<open>generateKey\<close>
  splits the requested usages between the two keys.
\<close>

theorem imported_public_key_usages:
  assumes imp: "Cipher_import env rec password w = (Inr b, w')"
    and gen: "Cipher_generate env v = (Inr a, v')"
    and import_grants: "importKey_grants env"
    and generate_grants: "generateKey_grants env"
  shows "(\<exists>bs. last (calls w') =
        ImportKey Spki bs (RsaHashedImportParams ''RSA-OAEP'' ''SHA-256'') True [Encrypt, WrapKey]) \<and>
      set (CryptoKey_usages env (publicKey (objects w' ! b))) = {Encrypt, WrapKey} \<and>
      set (CryptoKey_usages env (publicKey (objects w' ! b)))
        = set (CryptoKey_usages env (publicKey (objects v' ! a)))"
proof -
  from import_success [OF imp] obtain exported h1 pub h2 where
    imported: "subtle_importKey env Spki exported
        (RsaHashedImportParams ''RSA-OAEP'' ''SHA-256'') True [Encrypt, WrapKey] h1 = (Inr pub, h2)"
    and at_b: "publicKey (objects w' ! b) = pub"
    and last: "last (calls w') = ImportKey Spki exported
        (RsaHashedImportParams ''RSA-OAEP'' ''SHA-256'') True [Encrypt, WrapKey]"
    by auto
  from import_grants imported have "set (CryptoKey_usages env pub) = set [Encrypt, WrapKey]"
    unfolding importKey_grants_def by blast
  then have one: "set (CryptoKey_usages env (publicKey (objects w' ! b))) = {Encrypt, WrapKey}"
    by (simp add: at_b)
  from generate_success [OF gen] obtain h3 pair h4 where
    key_gen: "subtle_generateKey env
        (RsaHashedKeyGenParams ''RSA-OAEP'' 4096 [1, 0, 1] ''SHA-256'')
        True [Encrypt, Decrypt, WrapKey, UnwrapKey] h3 = (Inr pair, h4)"
    and at_a: "publicKey (objects v' ! a) = keyPair_publicKey pair"
    by auto
  from generate_grants key_gen have
    "set (CryptoKey_usages env (keyPair_publicKey pair))
       = set [Encrypt, Decrypt, WrapKey, UnwrapKey] \<inter> {Encrypt, WrapKey}"
    unfolding generateKey_grants_def by blast
  then have two: "set (CryptoKey_usages env (publicKey (objects v' ! a))) = {Encrypt, WrapKey}"
    by (auto simp: at_a)
  from last one two show ?thesis
    by auto
qed

theorem imported_public_key_usages_witness:
  "Cipher_import test_env sample_record (Some ''P1'') (snd sample_export)
     = (Inr 1, snd sample_import) \<and>
   Cipher_generate test_env (test_world None) = (Inr 0, snd sample_generate) \<and>
   (\<exists>bs. last (calls (snd sample_import)) =
      ImportKey Spki bs (RsaHashedImportParams ''RSA-OAEP'' ''SHA-256'') True [Encrypt, WrapKey]) \<and>
   set (CryptoKey_usages test_env (publicKey (objects (snd sample_import) ! 1)))
     = {Encrypt, WrapKey} \<and>
   set (CryptoKey_usages test_env (publicKey (objects (snd sample_import) ! 1)))
     = set (CryptoKey_usages test_env (publicKey (objects (snd sample_generate) ! 0)))"
  using imported_public_key_usages [OF sample_import_run sample_generate_run
      test_importKey_grants test_generateKey_grants] sample_import_run sample_generate_run
  by blast

subsection \<open>Password supplied or recalled\<close>

text \<open>
  Claim C7. In \<^verbatim>\<open>export\<close> and in \<^verbatim>\<open>import\<close>: a password that is supplied is the one
  \<^verbatim>\<open>wrap\<close> or \<^verbatim>\<open>unwrap\<close> is called on, and \<^verbatim>\<open>recall\<close> is not called; with no
  password, \<^verbatim>\<open>recall\<close> is called first, the method goes on with the password it
  resolves to exactly as if that had been supplied, and when \<^verbatim>\<open>recall\<close> rejects, the
  method is rejected with the same reason and \<^verbatim>\<open>recall\<close> is the only call it made.
\<close>

theorem password_supplied_or_recalled:
  "(Cipher_export env this (Some pw) w = (x, w') \<longrightarrow>
      (\<exists>cs. calls w' =
           calls w @ Wrap pw (privateKey (objects w ! this)) (salt (objects w ! this)) # cs \<and>
         Recall \<notin> set cs \<and> (\<forall>c \<in> set cs. password_used c = None))) \<and>
   (Cipher_import env rec (Some pw) w = (y, w') \<longrightarrow>
      (\<exists>cs. calls w' = calls w @ cs \<and> Recall \<notin> set cs \<and>
         (\<forall>c \<in> set cs. password_used c = None \<or> password_used c = Some pw) \<and>
         (isl y \<or> (\<exists>wrapped s. Unwrap pw wrapped s \<in> set cs)))) \<and>
   (Password_recall env (host_state w) = (Inl e, h) \<longrightarrow>
      Cipher_export env this None w
        = (Inl e, w\<lparr>host_state := h, calls := calls w @ [Recall]\<rparr>) \<and>
      Cipher_import env rec None w
        = (Inl e, w\<lparr>host_state := h, calls := calls w @ [Recall]\<rparr>)) \<and>
   (Password_recall env (host_state w) = (Inr pw, h) \<longrightarrow>
      Cipher_export env this None w
        = Cipher_export env this (Some pw) (w\<lparr>host_state := h, calls := calls w @ [Recall]\<rparr>) \<and>
      Cipher_import env rec None w
        = Cipher_import env rec (Some pw) (w\<lparr>host_state := h, calls := calls w @ [Recall]\<rparr>))"
proof (intro conjI impI)
  assume "Cipher_export env this (Some pw) w = (x, w')"
  then show "\<exists>cs. calls w' =
      calls w @ Wrap pw (privateKey (objects w ! this)) (salt (objects w ! this)) # cs \<and>
      Recall \<notin> set cs \<and> (\<forall>c \<in> set cs. password_used c = None)"
    by (auto simp: Cipher_export_def password_or_recall_def invoke_def invoke_pure_def Let_def
        split: prod.splits sum.splits)
next
  assume "Cipher_import env rec (Some pw) w = (y, w')"
  then show "\<exists>cs. calls w' = calls w @ cs \<and> Recall \<notin> set cs \<and>
      (\<forall>c \<in> set cs. password_used c = None \<or> password_used c = Some pw) \<and>
      (isl y \<or> (\<exists>wrapped s. Unwrap pw wrapped s \<in> set cs))"
    by (auto simp: Cipher_import_def Cipher_constructor_def password_or_recall_def invoke_def
        invoke_pure_def split: prod.splits sum.splits)
next
  assume "Password_recall env (host_state w) = (Inl e, h)"
  then show "Cipher_export env this None w
      = (Inl e, w\<lparr>host_state := h, calls := calls w @ [Recall]\<rparr>)"
    by (simp add: Cipher_export_def password_or_recall_def invoke_def)
next
  assume "Password_recall env (host_state w) = (Inl e, h)"
  then show "Cipher_import env rec None w
      = (Inl e, w\<lparr>host_state := h, calls := calls w @ [Recall]\<rparr>)"
    by (simp add: Cipher_import_def password_or_recall_def invoke_def)
next
  assume "Password_recall env (host_state w) = (Inr pw, h)"
  then show "Cipher_export env this None w
      = Cipher_export env this (Some pw) (w\<lparr>host_state := h, calls := calls w @ [Recall]\<rparr>)"
    by (simp add: Cipher_export_def password_or_recall_def invoke_def)
next
  assume "Password_recall env (host_state w) = (Inr pw, h)"
  then show "Cipher_import env rec None w
      = Cipher_import env rec (Some pw) (w\<lparr>host_state := h, calls := calls w @ [Recall]\<rparr>)"
    by (simp add: Cipher_import_def password_or_recall_def invoke_def)
qed

theorem password_supplied_or_recalled_witness:
  "(\<exists>cs. calls (snd sample_export) =
        calls (snd sample_generate) @
          Wrap ''P1'' (privateKey (objects (snd sample_generate) ! 0))
            (salt (objects (snd sample_generate) ! 0)) # cs \<and>
      Recall \<notin> set cs \<and> (\<forall>c \<in> set cs. password_used c = None)) \<and>
   (\<exists>cs. calls (snd sample_import) = calls (snd sample_export) @ cs \<and> Recall \<notin> set cs \<and>
      (\<forall>c \<in> set cs. password_used c = None \<or> password_used c = Some ''P1'') \<and>
      (\<exists>wrapped s. Unwrap ''P1'' wrapped s \<in> set cs)) \<and>
   Cipher_export test_env 0 None (snd sample_generate)
     = (Inl NoPassword, (snd sample_generate)\<lparr>calls := calls (snd sample_generate) @ [Recall]\<rparr>) \<and>
   Cipher_import test_env sample_record None (snd sample_generate)
     = (Inl NoPassword, (snd sample_generate)\<lparr>calls := calls (snd sample_generate) @ [Recall]\<rparr>) \<and>
   Cipher_export test_env 0 None remembering_world
     = Cipher_export test_env 0 (Some ''P1'')
         (remembering_world\<lparr>calls := calls remembering_world @ [Recall]\<rparr>) \<and>
   Cipher_import test_env sample_record None remembering_world
     = Cipher_import test_env sample_record (Some ''P1'')
         (remembering_world\<lparr>calls := calls remembering_world @ [Recall]\<rparr>)"
proof -
  have none: "Password_recall test_env (host_state (snd sample_generate))
      = (Inl NoPassword, host_state (snd sample_generate))"
    by (simp add: sample_generate_value test_env_def test_recall_def)
  have some: "Password_recall test_env (host_state remembering_world)
      = (Inr ''P1'', host_state remembering_world)"
    by (simp add: remembering_world_def test_env_def test_recall_def)
  note supplied = password_supplied_or_recalled [where env = test_env and this = 0
      and pw = "''P1''" and rec = sample_record]
  from supplied [where w = "snd sample_generate" and w' = "snd sample_export"
      and x = "Inr sample_record"] sample_export_run
  have one: "\<exists>cs. calls (snd sample_export) =
        calls (snd sample_generate) @
          Wrap ''P1'' (privateKey (objects (snd sample_generate) ! 0))
            (salt (objects (snd sample_generate) ! 0)) # cs \<and>
      Recall \<notin> set cs \<and> (\<forall>c \<in> set cs. password_used c = None)"
    by blast
  from supplied [where w = "snd sample_export" and w' = "snd sample_import"
      and y = "Inr 1"] sample_import_run
  have two: "\<exists>cs. calls (snd sample_import) = calls (snd sample_export) @ cs \<and> Recall \<notin> set cs \<and>
      (\<forall>c \<in> set cs. password_used c = None \<or> password_used c = Some ''P1'') \<and>
      (\<exists>wrapped s. Unwrap ''P1'' wrapped s \<in> set cs)"
    by simp
  from supplied [where w = "snd sample_generate" and e = NoPassword
      and h = "host_state (snd sample_generate)"] none
  have three: "Cipher_export test_env 0 None (snd sample_generate)
      = (Inl NoPassword, (snd sample_generate)\<lparr>calls := calls (snd sample_generate) @ [Recall]\<rparr>)"
    and four: "Cipher_import test_env sample_record None (snd sample_generate)
      = (Inl NoPassword, (snd sample_generate)\<lparr>calls := calls (snd sample_generate) @ [Recall]\<rparr>)"
    by simp_all
  from supplied [where w = remembering_world and h = "host_state remembering_world"] some
  have five: "Cipher_export test_env 0 None remembering_world
      = Cipher_export test_env 0 (Some ''P1'')
          (remembering_world\<lparr>calls := calls remembering_world @ [Recall]\<rparr>)"
    and six: "Cipher_import test_env sample_record None remembering_world
      = Cipher_import test_env sample_record (Some ''P1'')
          (remembering_world\<lparr>calls := calls remembering_world @ [Recall]\<rparr>)"
    by simp_all
  show ?thesis
    by (intro conjI) (rule one, rule two, rule three, rule four, rule five, rule six)
qed

subsection \<open>Envelopes are never mutated\<close>

text \<open>
  Claim C8. The constructor allocates a new object holding the three fields it is
  given. \<^verbatim>\<open>export\<close> leaves every object as it was. \<^verbatim>\<open>generate\<close> and \<^verbatim>\<open>import\<close>,
  when they succeed, return a reference to one new object, appended after the
  existing ones, which stay as they were; when they fail, no object is added or
  changed.
\<close>

theorem envelope_never_mutated:
  "(Cipher_constructor init w = (a, w') \<longrightarrow>
      a = length (objects w) \<and> objects w' = objects w @ [init]) \<and>
   (Cipher_export env this password w = (x, w') \<longrightarrow> objects w' = objects w) \<and>
   (Cipher_generate env w = (g, w') \<longrightarrow>
      (case g of
         Inl e \<Rightarrow> objects w' = objects w
       | Inr new \<Rightarrow> new = length (objects w) \<and> (\<exists>obj. objects w' = objects w @ [obj]))) \<and>
   (Cipher_import env rec password w = (i, w') \<longrightarrow>
      (case i of
         Inl e \<Rightarrow> objects w' = objects w
       | Inr new \<Rightarrow> new = length (objects w) \<and> (\<exists>obj. objects w' = objects w @ [obj])))"
proof (intro conjI impI)
  assume "Cipher_constructor init w = (a, w')"
  then show "a = length (objects w)" and "objects w' = objects w @ [init]"
    by (auto simp: Cipher_constructor_def)
next
  assume "Cipher_export env this password w = (x, w')"
  then show "objects w' = objects w"
    by (auto simp: Cipher_export_def password_or_recall_def invoke_def invoke_pure_def Let_def
        split: option.splits prod.splits sum.splits)
next
  assume "Cipher_generate env w = (g, w')"
  then show "case g of
      Inl e \<Rightarrow> objects w' = objects w
    | Inr new \<Rightarrow> new = length (objects w) \<and> (\<exists>obj. objects w' = objects w @ [obj])"
    by (auto simp: Cipher_generate_def Cipher_constructor_def invoke_def
        split: prod.splits sum.splits)
next
  assume "Cipher_import env rec password w = (i, w')"
  then show "case i of
      Inl e \<Rightarrow> objects w' = objects w
    | Inr new \<Rightarrow> new = length (objects w) \<and> (\<exists>obj. objects w' = objects w @ [obj])"
    by (auto simp: Cipher_import_def Cipher_constructor_def password_or_recall_def invoke_def
        invoke_pure_def split: prod.splits sum.splits option.splits)
qed

theorem envelope_never_mutated_witness:
  "Cipher_constructor short_salt_envelope (test_world None) = (0, short_salt_world) \<and>
   objects short_salt_world = objects (test_world None) @ [short_salt_envelope] \<and>
   objects (snd sample_export) = objects (snd sample_generate) \<and>
   (\<exists>obj. objects (snd sample_generate) = objects (test_world None) @ [obj]) \<and>
   (\<exists>obj. objects (snd sample_import) = objects (snd sample_export) @ [obj]) \<and>
   objects (snd (Cipher_import test_env malformed_record (Some ''P1'') (snd sample_export)))
     = objects (snd sample_export)"
proof -
  have built: "Cipher_constructor short_salt_envelope (test_world None) = (0, short_salt_world)"
    by (simp add: short_salt_world_def Cipher_constructor_def test_world_def)
  obtain w' where rejected:
    "Cipher_import test_env malformed_record (Some ''P1'') (snd sample_export) = (Inl NotHex, w')"
    by (simp add: malformed_record_def sample_record_def Cipher_import_def password_or_recall_def
        invoke_pure_def test_env_def test_decode_def hex_value_def)
  note frame = envelope_never_mutated [where env = test_env]
  from frame [where init = short_salt_envelope and w = "test_world None" and a = 0
      and w' = short_salt_world] built
  have one: "objects short_salt_world = objects (test_world None) @ [short_salt_envelope]"
    by simp
  from frame [where this = 0 and password = "Some ''P1''" and w = "snd sample_generate"
      and x = "Inr sample_record" and w' = "snd sample_export"] sample_export_run
  have two: "objects (snd sample_export) = objects (snd sample_generate)"
    by simp
  from frame [where w = "test_world None" and g = "Inr 0" and w' = "snd sample_generate",
      THEN conjunct2, THEN conjunct2, THEN conjunct1, THEN mp, OF sample_generate_run]
  have three: "\<exists>obj. objects (snd sample_generate) = objects (test_world None) @ [obj]"
    by auto
  from frame [where rec = sample_record and password = "Some ''P1''" and w = "snd sample_export"
      and i = "Inr 1" and w' = "snd sample_import",
      THEN conjunct2, THEN conjunct2, THEN conjunct2, THEN mp, OF sample_import_run]
  have four: "\<exists>obj. objects (snd sample_import) = objects (snd sample_export) @ [obj]"
    by auto
  from frame [where rec = malformed_record and password = "Some ''P1''"
      and w = "snd sample_export" and i = "Inl NotHex" and w' = w'] rejected
  have five: "objects (snd (Cipher_import test_env malformed_record (Some ''P1'')
      (snd sample_export))) = objects (snd sample_export)"
    by simp
  show ?thesis
    by (intro conjI) (rule built, rule one, rule two, rule three, rule four, rule five)
qed

subsection \<open>The salt of an envelope\<close>

text \<open>
  Claim C9, as the code has it. The salt of an envelope returned by \<^verbatim>\<open>generate\<close> is
  exactly 16 bytes (the host fills the 16-byte array it is given). \<^verbatim>\<open>import\<close> checks
  no length: the salt of the envelope it returns is exactly what the \<^verbatim>\<open>s\<close> field
  decodes to, so it is the salt of the envelope the record was exported from, and 16
  bytes when that one's was. No method changes the salt, or any field, of an
  envelope that exists.
\<close>

theorem envelope_salt:
  "(getRandomValues_fills env \<and> Cipher_generate env w = (Inr a, w') \<longrightarrow>
      length (salt (objects w' ! a)) = 16) \<and>
   (Cipher_import env rec password w = (Inr b, w') \<longrightarrow>
      base16_decode env (field_s rec) = Inr (salt (objects w' ! b))) \<and>
   (hex_inverse env \<and> Cipher_export env this pw1 w = (Inr r, w1) \<and>
      Cipher_import env r pw2 w1 = (Inr b, w2) \<longrightarrow>
      salt (objects w2 ! b) = salt (objects w ! this)) \<and>
   (i < length (objects w) \<and> Cipher_export env this password w = (x, w') \<longrightarrow>
      objects w' ! i = objects w ! i) \<and>
   (i < length (objects w) \<and> Cipher_generate env w = (g, w') \<longrightarrow>
      objects w' ! i = objects w ! i) \<and>
   (i < length (objects w) \<and> Cipher_import env rec password w = (y, w') \<longrightarrow>
      objects w' ! i = objects w ! i)"
proof (intro conjI impI; (elim conjE)?)
  assume fills: "getRandomValues_fills env" and gen: "Cipher_generate env w = (Inr a, w')"
  from generate_success [OF gen] obtain s h1 where
    rnd: "crypto_getRandomValues env (Uint8Array 16) (host_state w) = (Inr s, h1)"
    and at_a: "salt (objects w' ! a) = s"
    by auto
  from fills rnd have "length s = length (Uint8Array 16)"
    unfolding getRandomValues_fills_def by blast
  then show "length (salt (objects w' ! a)) = 16"
    by (simp add: at_a Uint8Array_def)
next
  assume "Cipher_import env rec password w = (Inr b, w')"
  from import_success [OF this] show "base16_decode env (field_s rec) = Inr (salt (objects w' ! b))"
    by auto
next
  assume hex: "hex_inverse env"
    and exp: "Cipher_export env this pw1 w = (Inr r, w1)"
    and imp: "Cipher_import env r pw2 w1 = (Inr b, w2)"
  from export_success [OF exp] have "field_s r = base16_encode env (salt (objects w ! this))"
    by auto
  with hex have "base16_decode env (field_s r) = Inr (salt (objects w ! this))"
    by (simp add: hex_inverse_def)
  moreover from import_success [OF imp] have
    "base16_decode env (field_s r) = Inr (salt (objects w2 ! b))"
    by auto
  ultimately show "salt (objects w2 ! b) = salt (objects w ! this)"
    by simp
next
  assume "i < length (objects w)" and "Cipher_export env this password w = (x, w')"
  then show "objects w' ! i = objects w ! i"
    by (simp add: export_objects)
next
  assume "i < length (objects w)" and "Cipher_generate env w = (g, w')"
  then show "objects w' ! i = objects w ! i"
    by (auto dest: generate_objects simp: nth_append)
next
  assume "i < length (objects w)" and "Cipher_import env rec password w = (y, w')"
  then show "objects w' ! i = objects w ! i"
    by (auto dest: import_objects simp: nth_append)
qed

theorem envelope_salt_witness:
  "Cipher_generate test_env (test_world None) = (Inr 0, snd sample_generate) \<and>
   length (salt (objects (snd sample_generate) ! 0)) = 16 \<and>
   Cipher_import test_env sample_record (Some ''P1'') (snd sample_export)
     = (Inr 1, snd sample_import) \<and>
   base16_decode test_env (field_s sample_record)
     = Inr (salt (objects (snd sample_import) ! 1)) \<and>
   salt (objects (snd sample_import) ! 1) = salt (objects (snd sample_generate) ! 0) \<and>
   objects (snd sample_export) ! 0 = objects (snd sample_generate) ! 0 \<and>
   objects (snd sample_import) ! 0 = objects (snd sample_export) ! 0 \<and>
   objects (snd (Cipher_generate test_env (snd sample_generate))) ! 0
     = objects (snd sample_generate) ! 0"
proof -
  have size: "(0::nat) < length (objects (snd sample_generate))"
    by (simp add: sample_generate_value)
  then have size': "(0::nat) < length (objects (snd sample_export))"
    using export_objects [OF sample_export_run] by simp
  note facts = envelope_salt [where env = test_env and i = 0]
  from facts [where w = "test_world None" and a = 0 and w' = "snd sample_generate",
      THEN conjunct1] test_getRandomValues_fills sample_generate_run
  have one: "length (salt (objects (snd sample_generate) ! 0)) = 16"
    by blast
  from facts [where rec = sample_record and password = "Some ''P1''"
      and w = "snd sample_export" and b = 1 and w' = "snd sample_import",
      THEN conjunct2, THEN conjunct1] sample_import_run
  have two: "base16_decode test_env (field_s sample_record)
      = Inr (salt (objects (snd sample_import) ! 1))"
    by blast
  from facts [where this = 0 and ?pw1.0 = "Some ''P1''" and w = "snd sample_generate"
      and r = sample_record and ?w1.0 = "snd sample_export" and ?pw2.0 = "Some ''P1''"
      and b = 1 and ?w2.0 = "snd sample_import",
      THEN conjunct2, THEN conjunct2, THEN conjunct1]
    test_hex_inverse sample_export_run sample_import_run
  have three: "salt (objects (snd sample_import) ! 1) = salt (objects (snd sample_generate) ! 0)"
    by blast
  from facts [where this = 0 and password = "Some ''P1''" and w = "snd sample_generate"
      and x = "Inr sample_record" and w' = "snd sample_export",
      THEN conjunct2, THEN conjunct2, THEN conjunct2, THEN conjunct1] size sample_export_run
  have four: "objects (snd sample_export) ! 0 = objects (snd sample_generate) ! 0"
    by blast
  from facts [where rec = sample_record and password = "Some ''P1''" and w = "snd sample_export"
      and y = "Inr 1" and w' = "snd sample_import",
      THEN conjunct2, THEN conjunct2, THEN conjunct2, THEN conjunct2, THEN conjunct2]
    size' sample_import_run
  have five: "objects (snd sample_import) ! 0 = objects (snd sample_export) ! 0"
    by blast
  from facts [where w = "snd sample_generate"
      and g = "fst (Cipher_generate test_env (snd sample_generate))"
      and w' = "snd (Cipher_generate test_env (snd sample_generate))",
      THEN conjunct2, THEN conjunct2, THEN conjunct2, THEN conjunct2, THEN conjunct1] size
  have six: "objects (snd (Cipher_generate test_env (snd sample_generate))) ! 0
      = objects (snd sample_generate) ! 0"
    by simp
  show ?thesis
    by (intro conjI)
      (rule sample_generate_run, rule one, rule sample_import_run, rule two, rule three,
        rule four, rule five, rule six)
qed

text \<open>
  The claim as written, that \<^verbatim>\<open>import\<close> always yields a 16-byte salt, fails on a
  record whose \<^verbatim>\<open>s\<close> field decodes to another length: here the record exported from
  an envelope constructed around a one-byte salt.
\<close>

theorem import_short_salt_counterexample:
  "Cipher_constructor short_salt_envelope (test_world None) = (0, short_salt_world) \<and>
   fst (Cipher_export test_env 0 (Some ''P1'') short_salt_world) = Inr short_salt_record \<and>
   fst short_salt_import = Inr 1 \<and>
   salt (objects (snd short_salt_import) ! 1) = [0] \<and>
   length (salt (objects (snd short_salt_import) ! 1)) \<noteq> 16"
  by (simp add: short_salt_import_def short_salt_world_def short_salt_envelope_def
      short_salt_record_def method_defs test_defs hex_digit_def hex_value_def)

subsection \<open>Extractable key handles\<close>

text \<open>
  Claim C10. \<^verbatim>\<open>generate\<close> asks for its key pair with \<^verbatim>\<open>extractable\<close> set to
  \<^verbatim>\<open>true\<close>, and \<^verbatim>\<open>import\<close> imports the public key with \<^verbatim>\<open>extractable\<close> set to
  \<^verbatim>\<open>true\<close>; no call made by any of the three methods asks for a key handle that is
  not extractable. On a host that grants what is requested, the private and the
  public key of a generated envelope and the public key of an imported envelope are
  extractable.
\<close>

theorem key_handles_extractable:
  "(Cipher_generate env w = (Inr a, w') \<longrightarrow>
      last (calls w') =
        GenerateKey (RsaHashedKeyGenParams ''RSA-OAEP'' 4096 [1, 0, 1] ''SHA-256'')
          True [Encrypt, Decrypt, WrapKey, UnwrapKey] \<and>
      (generateKey_grants env \<longrightarrow>
         CryptoKey_extractable env (privateKey (objects w' ! a)) \<and>
         CryptoKey_extractable env (publicKey (objects w' ! a)))) \<and>
   (Cipher_import env rec password w = (Inr b, w') \<longrightarrow>
      (\<exists>bs. last (calls w') =
         ImportKey Spki bs (RsaHashedImportParams ''RSA-OAEP'' ''SHA-256'')
           True [Encrypt, WrapKey]) \<and>
      (importKey_grants env \<longrightarrow> CryptoKey_extractable env (publicKey (objects w' ! b)))) \<and>
   (Cipher_generate env w = (g, w') \<or> Cipher_import env rec password w = (y, w')
      \<or> Cipher_export env this password w = (x, w') \<longrightarrow>
      Some False \<notin> extractable_requested ` set (drop (length (calls w)) (calls w')))"
proof (intro conjI impI)
  assume gen: "Cipher_generate env w = (Inr a, w')"
  from generate_success [OF gen] show "last (calls w') =
      GenerateKey (RsaHashedKeyGenParams ''RSA-OAEP'' 4096 [1, 0, 1] ''SHA-256'')
        True [Encrypt, Decrypt, WrapKey, UnwrapKey]"
    by auto
  assume grants: "generateKey_grants env"
  from generate_success [OF gen] obtain h1 pair h2 where
    key_gen: "subtle_generateKey env
        (RsaHashedKeyGenParams ''RSA-OAEP'' 4096 [1, 0, 1] ''SHA-256'')
        True [Encrypt, Decrypt, WrapKey, UnwrapKey] h1 = (Inr pair, h2)"
    and at_a: "privateKey (objects w' ! a) = keyPair_privateKey pair"
      "publicKey (objects w' ! a) = keyPair_publicKey pair"
    by auto
  from grants key_gen have "CryptoKey_extractable env (keyPair_privateKey pair) = True"
    and "CryptoKey_extractable env (keyPair_publicKey pair)"
    unfolding generateKey_grants_def by blast+
  then show "CryptoKey_extractable env (privateKey (objects w' ! a))"
    and "CryptoKey_extractable env (publicKey (objects w' ! a))"
    by (simp_all add: at_a)
next
  assume imp: "Cipher_import env rec password w = (Inr b, w')"
  from import_success [OF imp] show "\<exists>bs. last (calls w') =
      ImportKey Spki bs (RsaHashedImportParams ''RSA-OAEP'' ''SHA-256'') True [Encrypt, WrapKey]"
    by auto
  assume grants: "importKey_grants env"
  from import_success [OF imp] obtain exported h1 pub h2 where
    imported: "subtle_importKey env Spki exported
        (RsaHashedImportParams ''RSA-OAEP'' ''SHA-256'') True [Encrypt, WrapKey] h1 = (Inr pub, h2)"
    and at_b: "publicKey (objects w' ! b) = pub"
    by auto
  from grants imported have "CryptoKey_extractable env pub = True"
    unfolding importKey_grants_def by blast
  then show "CryptoKey_extractable env (publicKey (objects w' ! b))"
    by (simp add: at_b)
next
  assume "Cipher_generate env w = (g, w') \<or> Cipher_import env rec password w = (y, w')
      \<or> Cipher_export env this password w = (x, w')"
  then consider (gen) "Cipher_generate env w = (g, w')"
    | (imp) "Cipher_import env rec password w = (y, w')"
    | (exp) "Cipher_export env this password w = (x, w')"
    by blast
  then show "Some False \<notin> extractable_requested ` set (drop (length (calls w)) (calls w'))"
  proof cases
    case gen
    then show ?thesis
      by (auto simp: Cipher_generate_def Cipher_constructor_def invoke_def
          split: prod.splits sum.splits)
  next
    case imp
    then show ?thesis
      by (auto simp: Cipher_import_def Cipher_constructor_def password_or_recall_def invoke_def
          invoke_pure_def split: prod.splits sum.splits option.splits)
  next
    case exp
    then show ?thesis
      by (auto simp: Cipher_export_def password_or_recall_def invoke_def invoke_pure_def Let_def
          split: prod.splits sum.splits option.splits)
  qed
qed

theorem key_handles_extractable_witness:
  "last (calls (snd sample_generate)) =
     GenerateKey (RsaHashedKeyGenParams ''RSA-OAEP'' 4096 [1, 0, 1] ''SHA-256'')
       True [Encrypt, Decrypt, WrapKey, UnwrapKey] \<and>
   CryptoKey_extractable test_env (privateKey (objects (snd sample_generate) ! 0)) \<and>
   CryptoKey_extractable test_env (publicKey (objects (snd sample_generate) ! 0)) \<and>
   (\<exists>bs. last (calls (snd sample_import)) =
      ImportKey Spki bs (RsaHashedImportParams ''RSA-OAEP'' ''SHA-256'') True [Encrypt, WrapKey]) \<and>
   CryptoKey_extractable test_env (publicKey (objects (snd sample_import) ! 1)) \<and>
   Some False \<notin> extractable_requested `
     set (drop (length (calls (snd sample_generate))) (calls (snd sample_export)))"
proof -
  note facts = key_handles_extractable [where env = test_env]
  from facts [where w = "test_world None" and a = 0 and w' = "snd sample_generate",
      THEN conjunct1, THEN mp, OF sample_generate_run] test_generateKey_grants
  have one: "last (calls (snd sample_generate)) =
      GenerateKey (RsaHashedKeyGenParams ''RSA-OAEP'' 4096 [1, 0, 1] ''SHA-256'')
        True [Encrypt, Decrypt, WrapKey, UnwrapKey]"
    and two: "CryptoKey_extractable test_env (privateKey (objects (snd sample_generate) ! 0))"
    and three: "CryptoKey_extractable test_env (publicKey (objects (snd sample_generate) ! 0))"
    by blast+
  from facts [where rec = sample_record and password = "Some ''P1''"
      and w = "snd sample_export" and b = 1 and w' = "snd sample_import",
      THEN conjunct2, THEN conjunct1, THEN mp, OF sample_import_run] test_importKey_grants
  have four: "\<exists>bs. last (calls (snd sample_import)) =
      ImportKey Spki bs (RsaHashedImportParams ''RSA-OAEP'' ''SHA-256'') True [Encrypt, WrapKey]"
    and five: "CryptoKey_extractable test_env (publicKey (objects (snd sample_import) ! 1))"
    by blast+
  from facts [where this = 0 and password = "Some ''P1''" and w = "snd sample_generate"
      and x = "Inr sample_record" and w' = "snd sample_export",
      THEN conjunct2, THEN conjunct2] sample_export_run
  have six: "Some False \<notin> extractable_requested `
      set (drop (length (calls (snd sample_generate))) (calls (snd sample_export)))"
    by blast
  show ?thesis
    by (intro conjI) (rule one, rule two, rule three, rule four, rule five, rule six)
qed

end
